theory Spec2Isabelle
  imports Complex_Main "HOL-Library.AList"
begin

section \<open>Python values and errors\<close>

text \<open>
  The module under study is \<^verbatim>\<open>src/services/transaction_service.py\<close>. A Python
  \<^verbatim>\<open>str\<close> is modelled as a \<^typ>\<open>string\<close>, each \<^typ>\<open>char\<close> standing for one
  code point below 256. Every class of character the code distinguishes (white space
  that ends a line, white space that does not, the backtick, the digits, the slash,
  anything else) has members in that range.

  An exception that leaves a function is a value \<open>Inl e\<close> of the result; a normal
  return is \<open>Inr v\<close>.
\<close>

datatype pyerror = ValueError | IndexError | KeyError string | AttributeError | RecursionError

subsection \<open>The string methods the module calls\<close>

text \<open>
  \<^verbatim>\<open>str.strip()\<close> removes the characters for which \<^verbatim>\<open>str.isspace\<close> holds from both
  ends; below 256 these are TAB, LF, VT, FF, CR, FS, GS, RS, US, space, NEL and NBSP.
\<close>

definition whitespace :: "char list" where
  "whitespace = [CHR 0x09, CHR 0x0A, CHR 0x0B, CHR 0x0C, CHR 0x0D, CHR 0x1C, CHR 0x1D,
                 CHR 0x1E, CHR 0x1F, CHR 0x20, CHR 0x85, CHR 0xA0]"

definition isspace :: "char \<Rightarrow> bool" where
  "isspace c = (c \<in> set whitespace)"

definition lstrip :: "string \<Rightarrow> string" where
  "lstrip s = dropWhile isspace s"

definition rstrip :: "string \<Rightarrow> string" where
  "rstrip s = rev (dropWhile isspace (rev s))"

definition strip :: "string \<Rightarrow> string" where
  "strip s = rstrip (lstrip s)"

text \<open>
  \<^verbatim>\<open>str.splitlines()\<close> cuts at LF, VT, FF, CR, FS, GS, RS and NEL, takes CR LF as one
  boundary, drops the boundaries, and yields no empty last line after a final boundary.
\<close>

definition linebreaks :: "char list" where
  "linebreaks = [CHR 0x0A, CHR 0x0B, CHR 0x0C, CHR 0x0D, CHR 0x1C, CHR 0x1D, CHR 0x1E,
                 CHR 0x85]"

definition islinebreak :: "char \<Rightarrow> bool" where
  "islinebreak c = (c \<in> set linebreaks)"

function splitlines :: "string \<Rightarrow> string list" where
  "splitlines [] = []"
| "splitlines (c # cs) =
     (let line = takeWhile (\<lambda>x. \<not> islinebreak x) (c # cs);
          rest = dropWhile (\<lambda>x. \<not> islinebreak x) (c # cs)
      in case rest of
           [] \<Rightarrow> [line]
         | b # after \<Rightarrow>
             (if b = CHR 0x0D \<and> after \<noteq> [] \<and> hd after = CHR 0x0A
              then line # splitlines (tl after)
              else line # splitlines after))"
  by pat_completeness auto
termination
proof (relation "measure length", goal_cases)
  case 1
  show ?case by simp
next
  case (2 c cs line rest b after)
  have "length rest \<le> length (c # cs)"
    unfolding 2(2) by (rule length_dropWhile_le)
  moreover have "length (tl after) < length rest"
    using 2(3,4) by (cases after) simp_all
  ultimately show ?case by simp
next
  case (3 c cs line rest b after)
  have "length rest \<le> length (c # cs)"
    unfolding 3(2) by (rule length_dropWhile_le)
  moreover have "length after < length rest"
    using 3(3) by simp
  ultimately show ?case by simp
qed

text \<open>\<^verbatim>\<open>sep.join(xs)\<close> and \<^verbatim>\<open>s.startswith(p)\<close>.\<close>

fun join :: "string \<Rightarrow> string list \<Rightarrow> string" where
  "join sep [] = []"
| "join sep [x] = x"
| "join sep (x # y # ys) = x @ sep @ join sep (y # ys)"

definition startswith :: "string \<Rightarrow> string \<Rightarrow> bool" where
  "startswith s p = (take (length p) s = p)"

section \<open>The fence-stripping cleaner\<close>

text \<open>
  \<^verbatim>\<open>
  def clean_completion_text(text: str) -> str:
      text = text.strip()
      if text.startswith("```"):
          lines = text.splitlines()
          if lines[0].startswith("```"):
              lines = lines[1:]
          if lines and lines[-1].startswith("```"):
              lines = lines[:-1]
          text = "\n".join(lines).strip()
      return text
  \<close>
  \<^verbatim>\<open>lines[0]\<close> raises IndexError on an empty list, which the model keeps as a branch.
\<close>

definition fence :: string where
  "fence = ''```''"

definition clean_completion_text :: "string \<Rightarrow> pyerror + string" where
  "clean_completion_text text0 =
     (let text = strip text0
      in if startswith text fence
         then (let lines = splitlines text
               in case lines of
                    [] \<Rightarrow> Inl IndexError
                  | first # _ \<Rightarrow>
                      (let lines1 = (if startswith first fence then tl lines else lines);
                           lines2 = (if lines1 \<noteq> [] \<and> startswith (last lines1) fence
                                     then butlast lines1 else lines1)
                       in Inr (strip (join [CHR 0x0A] lines2))))
         else Inr text)"

section \<open>Dates\<close>

text \<open>
  A \<^verbatim>\<open>datetime\<close> without time zone. The constructor \<^verbatim>\<open>datetime(y, m, d, H, M, S)\<close>
  raises ValueError when a field is out of range; the microsecond defaults to 0.
\<close>

record datetime =
  year :: nat
  month :: nat
  day :: nat
  hour :: nat
  minute :: nat
  second :: nat
  microsecond :: nat

definition is_leap :: "nat \<Rightarrow> bool" where
  "is_leap y = (y mod 4 = 0 \<and> (y mod 100 \<noteq> 0 \<or> y mod 400 = 0))"

definition days_in_month :: "nat \<Rightarrow> nat \<Rightarrow> nat" where
  "days_in_month y m =
     (if m = 2 then (if is_leap y then 29 else 28)
      else if m = 4 \<or> m = 6 \<or> m = 9 \<or> m = 11 then 30
      else 31)"

definition datetime_new :: "nat \<Rightarrow> nat \<Rightarrow> nat \<Rightarrow> nat \<Rightarrow> nat \<Rightarrow> nat \<Rightarrow> pyerror + datetime" where
  "datetime_new y m d H M S =
     (if 1 \<le> y \<and> y \<le> 9999 \<and> 1 \<le> m \<and> m \<le> 12 \<and> 1 \<le> d \<and> d \<le> days_in_month y m
         \<and> H < 24 \<and> M < 60 \<and> S < 60
      then Inr \<lparr>year = y, month = m, day = d, hour = H, minute = M, second = S,
                microsecond = 0\<rparr>
      else Inl ValueError)"

subsection \<open>\<^verbatim>\<open>datetime.strptime(date_str, "%m/%d/%Y")\<close>\<close>

text \<open>
  The library turns the format into the regular expression
  \<^verbatim>\<open>(?P<m>1[0-2]|0[1-9]|[1-9])/(?P<d>3[0-1]|[1-2]\d|0[1-9]|[1-9]| [1-9])/(?P<Y>\d\d\d\d)\<close>,
  matches it at the start of the input with a backtracking matcher, raises ValueError
  when there is no match or when input remains after the match, converts the three
  groups with \<^verbatim>\<open>int\<close>, and raises ValueError when they do not name a calendar day.

  Each group below returns every way it can match a prefix of the input, in the order
  the matcher tries them, each with the text matched and the input left.
\<close>

definition two_chars :: "string \<Rightarrow> string \<Rightarrow> string \<Rightarrow> (string \<times> string) list" where
  "two_chars a b s =
     (case s of
        c1 # c2 # r \<Rightarrow> if c1 \<in> set a \<and> c2 \<in> set b then [([c1, c2], r)] else []
      | _ \<Rightarrow> [])"

definition one_char :: "string \<Rightarrow> string \<Rightarrow> (string \<times> string) list" where
  "one_char a s = (case s of c # r \<Rightarrow> if c \<in> set a then [([c], r)] else [] | [] \<Rightarrow> [])"

definition literal :: "char \<Rightarrow> string \<Rightarrow> string list" where
  "literal x s = (case s of c # r \<Rightarrow> if c = x then [r] else [] | [] \<Rightarrow> [])"

definition group_m :: "string \<Rightarrow> (string \<times> string) list" where
  "group_m s = two_chars ''1'' ''012'' s @ two_chars ''0'' ''123456789'' s
               @ one_char ''123456789'' s"

definition group_d :: "string \<Rightarrow> (string \<times> string) list" where
  "group_d s = two_chars ''3'' ''01'' s @ two_chars ''12'' ''0123456789'' s
               @ two_chars ''0'' ''123456789'' s @ one_char ''123456789'' s
               @ two_chars '' '' ''123456789'' s"

definition group_Y :: "string \<Rightarrow> (string \<times> string) list" where
  "group_Y s =
     (case s of
        c1 # c2 # c3 # c4 # r \<Rightarrow>
          if set [c1, c2, c3, c4] \<subseteq> set ''0123456789'' then [([c1, c2, c3, c4], r)] else []
      | _ \<Rightarrow> [])"

definition format_regex_match :: "string \<Rightarrow> ((string \<times> string \<times> string) \<times> string) list" where
  "format_regex_match s =
     [((m, d, Y), r5). (m, r1) \<leftarrow> group_m s, r2 \<leftarrow> literal (CHR ''/'') r1,
                       (d, r3) \<leftarrow> group_d r2, r4 \<leftarrow> literal (CHR ''/'') r3,
                       (Y, r5) \<leftarrow> group_Y r4]"

text \<open>\<^verbatim>\<open>int(s)\<close> on a text of decimal digits with white space around it.\<close>

definition digit_val :: "char \<Rightarrow> nat" where
  "digit_val c = length (takeWhile (\<lambda>x. x \<noteq> c) ''0123456789'')"

definition py_int :: "string \<Rightarrow> nat" where
  "py_int s = foldl (\<lambda>n c. 10 * n + digit_val c) 0 (strip s)"

definition strptime :: "string \<Rightarrow> pyerror + datetime" where
  "strptime data_string =
     (case format_regex_match data_string of
        [] \<Rightarrow> Inl ValueError
      | ((m, d, Y), rest) # _ \<Rightarrow>
          if rest \<noteq> [] then Inl ValueError
          else datetime_new (py_int Y) (py_int m) (py_int d) 0 0 0)"

section \<open>Documents and the transaction repository\<close>

text \<open>
  A document of the store is a Python dict from field names to values, kept as an
  association list in insertion order. \<open>POther\<close> stands for any value of another type
  (a double, a Decimal128), given by the text \<^verbatim>\<open>str()\<close> yields for it: the module does
  nothing with field values but render them.
\<close>

datatype pyval =
    PStr string
  | PInt int
  | PBool bool
  | PNone
  | PDatetime datetime
  | PObjectId string
  | POther string

type_synonym document = "(string \<times> pyval) list"

definition getitem :: "document \<Rightarrow> string \<Rightarrow> pyerror + pyval" where
  "getitem d k = (case map_of d k of None \<Rightarrow> Inl (KeyError k) | Some v \<Rightarrow> Inr v)"

definition setitem :: "document \<Rightarrow> string \<Rightarrow> pyval \<Rightarrow> document" where
  "setitem d k v = AList.update k v d"

text \<open>\<^verbatim>\<open>str(v)\<close>, which is also what an f-string field \<^verbatim>\<open>{v}\<close> renders.\<close>

function str_nat :: "nat \<Rightarrow> string" where
  "str_nat n = (if n < 10 then [''0123456789'' ! n]
                else str_nat (n div 10) @ [''0123456789'' ! (n mod 10)])"
  by pat_completeness auto
termination
  by (relation "measure id") auto

definition str_int :: "int \<Rightarrow> string" where
  "str_int i = (if i < 0 then ''-'' @ str_nat (nat (- i)) else str_nat (nat i))"

definition zfill :: "nat \<Rightarrow> string \<Rightarrow> string" where
  "zfill w s = replicate (w - length s) (CHR ''0'') @ s"

definition str_datetime :: "datetime \<Rightarrow> string" where
  "str_datetime t =
     zfill 4 (str_nat (year t)) @ ''-'' @ zfill 2 (str_nat (month t)) @ ''-''
     @ zfill 2 (str_nat (day t)) @ '' '' @ zfill 2 (str_nat (hour t)) @ '':''
     @ zfill 2 (str_nat (minute t)) @ '':'' @ zfill 2 (str_nat (second t))
     @ (if microsecond t = 0 then [] else ''.'' @ zfill 6 (str_nat (microsecond t)))"

fun py_str :: "pyval \<Rightarrow> string" where
  "py_str (PStr s) = s"
| "py_str (PInt i) = str_int i"
| "py_str (PBool b) = (if b then ''True'' else ''False'')"
| "py_str PNone = ''None''"
| "py_str (PDatetime t) = str_datetime t"
| "py_str (PObjectId h) = h"
| "py_str (POther s) = s"

text \<open>
  The filter both entry points hand to \<^verbatim>\<open>transactions_coll.find\<close>:
  \<^verbatim>\<open>{"transaction_date": {"$gte": a, "$lte": b}, "is_processed_for_recommendation": f}\<close>.
  The flag entry is optional in a filter of this shape; \<open>None\<close> is the filter without it.
\<close>

record query =
  transaction_date_gte :: datetime
  transaction_date_lte :: datetime
  is_processed_for_recommendation :: "bool option"

definition datetime_key :: "datetime \<Rightarrow> nat list" where
  "datetime_key t = [year t, month t, day t, hour t, minute t, second t, microsecond t]"

fun lex_le :: "nat list \<Rightarrow> nat list \<Rightarrow> bool" where
  "lex_le [] _ = True"
| "lex_le (x # xs) [] = False"
| "lex_le (x # xs) (y # ys) = (x < y \<or> (x = y \<and> lex_le xs ys))"

definition datetime_le :: "datetime \<Rightarrow> datetime \<Rightarrow> bool" where
  "datetime_le a b = lex_le (datetime_key a) (datetime_key b)"

text \<open>
  The store returns, in its own order, the documents whose \<^verbatim>\<open>transaction_date\<close> is a
  date inside the closed range and whose flag field, when the filter names it, is
  present and equal to the value asked for.
\<close>

definition matches :: "query \<Rightarrow> document \<Rightarrow> bool" where
  "matches q d =
     ((case map_of d ''transaction_date'' of
         Some (PDatetime t) \<Rightarrow>
           datetime_le (transaction_date_gte q) t \<and> datetime_le t (transaction_date_lte q)
       | _ \<Rightarrow> False)
      \<and> (case is_processed_for_recommendation q of
            None \<Rightarrow> True
          | Some f \<Rightarrow> map_of d ''is_processed_for_recommendation'' = Some (PBool f)))"

definition coll_find :: "document list \<Rightarrow> query \<Rightarrow> document list" where
  "coll_find coll q = filter (matches q) coll"

text \<open>
  What a run does to its collaborators, in order: the filter sent to the repository,
  the request sent to the completion provider, the text handed to \<^verbatim>\<open>json.loads\<close>.
\<close>

record request =
  model :: string
  temperature :: rat
  messages :: "(string \<times> string) list"

datatype event = Find query | Create request | Loads string

section \<open>The inspection entry point\<close>

text \<open>
  \<^verbatim>\<open>get_database()\<close> and \<^verbatim>\<open>get_openai_client()\<close> live in modules outside the file;
  the entry points take what they yield as parameters: the contents of the
  \<^verbatim>\<open>transactions\<close> collection, and the provider's \<^verbatim>\<open>chat.completions.create\<close> as a
  function that raises (\<open>Inl\<close>, with the text of the exception) or answers.

  Lines 17 to 27 of \<^verbatim>\<open>fetch_transactions_by_date\<close>:
  \<^verbatim>\<open>
  date_obj = datetime.strptime(date_str, "%m/%d/%Y")
  start_of_day = datetime(date_obj.year, date_obj.month, date_obj.day, 0, 0, 0)
  end_of_day   = datetime(date_obj.year, date_obj.month, date_obj.day, 23, 59, 59)
  query = {
    "transaction_date": {"$gte": start_of_day, "$lte": end_of_day},
    "is_processed_for_recommendation": False
  }
  \<close>
\<close>

definition fetch_query :: "string \<Rightarrow> pyerror + query" where
  "fetch_query date_str =
     (case strptime date_str of
        Inl e \<Rightarrow> Inl e
      | Inr date_obj \<Rightarrow>
          (case datetime_new (year date_obj) (month date_obj) (day date_obj) 0 0 0 of
             Inl e \<Rightarrow> Inl e
           | Inr start_of_day \<Rightarrow>
               (case datetime_new (year date_obj) (month date_obj) (day date_obj) 23 59 59 of
                  Inl e \<Rightarrow> Inl e
                | Inr end_of_day \<Rightarrow>
                    Inr \<lparr>transaction_date_gte = start_of_day,
                         transaction_date_lte = end_of_day,
                         is_processed_for_recommendation = Some False\<rparr>)))"

text \<open>
  Lines 29 to 32:
  \<^verbatim>\<open>
  transactions = list(transactions_coll.find(query))
  for tx in transactions:
      tx["_id"] = str(tx["_id"])
  return transactions
  \<close>
\<close>

fun stringify_ids :: "document list \<Rightarrow> pyerror + document list" where
  "stringify_ids [] = Inr []"
| "stringify_ids (tx # txs) =
     (case getitem tx ''_id'' of
        Inl e \<Rightarrow> Inl e
      | Inr v \<Rightarrow>
          (case stringify_ids txs of
             Inl e \<Rightarrow> Inl e
           | Inr txs' \<Rightarrow> Inr (setitem tx ''_id'' (PStr (py_str v)) # txs')))"

definition fetch_transactions_by_date ::
  "document list \<Rightarrow> string \<Rightarrow> event list \<times> (pyerror + document list)" where
  "fetch_transactions_by_date transactions_coll date_str =
     (case fetch_query date_str of
        Inl e \<Rightarrow> ([], Inl e)
      | Inr query \<Rightarrow>
          (let transactions = coll_find transactions_coll query
           in ([Find query], stringify_ids transactions)))"

section \<open>The recommendation entry point\<close>

text \<open>Lines 62 to 72 of \<^verbatim>\<open>get_recommended_transaction_by_date\<close>, the same text again.\<close>

definition recommendation_query :: "string \<Rightarrow> pyerror + query" where
  "recommendation_query date_str =
     (case strptime date_str of
        Inl e \<Rightarrow> Inl e
      | Inr date_obj \<Rightarrow>
          (case datetime_new (year date_obj) (month date_obj) (day date_obj) 0 0 0 of
             Inl e \<Rightarrow> Inl e
           | Inr start_of_day \<Rightarrow>
               (case datetime_new (year date_obj) (month date_obj) (day date_obj) 23 59 59 of
                  Inl e \<Rightarrow> Inl e
                | Inr end_of_day \<Rightarrow>
                    Inr \<lparr>transaction_date_gte = start_of_day,
                         transaction_date_lte = end_of_day,
                         is_processed_for_recommendation = Some False\<rparr>)))"

text \<open>
  Lines 83 to 92, one description per transaction; a missing key raises KeyError. The
  third piece of the f-string has no comma after it.
  \<^verbatim>\<open>
  f"TransactionID: {tx['transaction_id']}, "
  f"Type: {tx['transaction_type']}, "
  f"Balance After Transaction: {tx['balance_after_transaction']}"
  f"Amount: {tx['amount']}, "
  f"Category: {tx['merchant_category']}, "
  f"Desc: {tx['description']}"
  \<close>
\<close>

definition bind_err :: "pyerror + 'a \<Rightarrow> ('a \<Rightarrow> pyerror + 'b) \<Rightarrow> pyerror + 'b" where
  "bind_err r f = (case r of Inl e \<Rightarrow> Inl e | Inr v \<Rightarrow> f v)"

definition tx_description :: "document \<Rightarrow> pyerror + string" where
  "tx_description tx =
     bind_err (getitem tx ''transaction_id'') (\<lambda>v1.
     bind_err (getitem tx ''transaction_type'') (\<lambda>v2.
     bind_err (getitem tx ''balance_after_transaction'') (\<lambda>v3.
     bind_err (getitem tx ''amount'') (\<lambda>v4.
     bind_err (getitem tx ''merchant_category'') (\<lambda>v5.
     bind_err (getitem tx ''description'') (\<lambda>v6.
       Inr (''TransactionID: '' @ py_str v1 @ '', ''
            @ ''Type: '' @ py_str v2 @ '', ''
            @ ''Balance After Transaction: '' @ py_str v3
            @ ''Amount: '' @ py_str v4 @ '', ''
            @ ''Category: '' @ py_str v5 @ '', ''
            @ ''Desc: '' @ py_str v6)))))))"

fun tx_descriptions :: "document list \<Rightarrow> pyerror + string list" where
  "tx_descriptions [] = Inr []"
| "tx_descriptions (tx # txs) =
     bind_err (tx_description tx) (\<lambda>line.
     bind_err (tx_descriptions txs) (\<lambda>lines. Inr (line # lines)))"

text \<open>Lines 94 to 125: the two messages and the request.\<close>

definition nl :: string where
  "nl = [CHR 0x0A]"

definition dq :: string where
  "dq = [CHR 0x22]"

definition system_instructions :: string where
  "system_instructions =
     ''You are a Wells Fargo product recommendation system. ''
     @ ''Given a list of transactions, pick transactions (transaction_id) ''
     @ ''for which a Wells Fargo product can be recommended. ''
     @ ''Output a list of JSON objects with the format:'' @ nl
     @ ''[ {'' @ nl
     @ ''  '' @ dq @ ''transaction_id'' @ dq @ '': '' @ dq
         @ ''<the chosen transaction id>'' @ dq @ '','' @ nl
     @ ''  '' @ dq @ ''category'' @ dq @ '': '' @ dq
         @ ''<the chosen transaction category>'' @ dq @ '','' @ nl
     @ ''  '' @ dq @ ''description'' @ dq @ '': '' @ dq
         @ ''<the chosen transaction description>'' @ dq @ '','' @ nl
     @ ''  '' @ dq @ ''type'' @ dq @ '': '' @ dq
         @ ''<the chosen transaction type>'' @ dq @ '','' @ nl
     @ ''  '' @ dq @ ''reason'' @ dq @ '': '' @ dq
         @ ''<short reason why this product suits the transaction>'' @ dq @ nl
     @ ''} ]''"

definition user_message :: "string list \<Rightarrow> string" where
  "user_message tx_descs =
     (let prompt_context = join nl tx_descs
      in ''Transactions:'' @ nl @ prompt_context @ nl @ ''Which transactions do you pick?'')"

definition chat_request :: "string list \<Rightarrow> request" where
  "chat_request tx_descs =
     \<lparr>model = ''deepseek-reasoner'', temperature = 7 / 10,
      messages = [(''system'', system_instructions), (''user'', user_message tx_descs)]\<rparr>"

text \<open>
  The provider's answer: \<^verbatim>\<open>response.choices[0].message.content\<close>, where the list of
  choices may be empty and the content may be \<^verbatim>\<open>None\<close>.
\<close>

datatype message = Message (content: "string option")

datatype choice = Choice (message: message)

datatype response = Response (choices: "choice list")

text \<open>
  The value a run returns is a Python dict or whatever \<^verbatim>\<open>json.loads\<close> decoded. A dict is
  an association list in insertion order. Besides the values of the JSON grammar the
  decoder yields the floats \<^verbatim>\<open>nan\<close>, \<^verbatim>\<open>inf\<close> and \<^verbatim>\<open>-inf\<close>.
\<close>

datatype json =
    JNull
  | JBool bool
  | JInt int
  | JFloat rat
  | JNaN
  | JPosInf
  | JNegInf
  | JStr string
  | JArr "json list"
  | JObj "(string \<times> json) list"

text \<open>
  \<^verbatim>\<open>json.loads\<close> is the parameter \<open>loads\<close>. A call returns a value, raises
  \<^verbatim>\<open>json.JSONDecodeError\<close>, or raises something else: RecursionError on a text nested
  deeper than the interpreter allows, ValueError on an integer literal longer than the
  interpreter's limit on digits.
\<close>

datatype loads_result = Decoded json | JSONDecodeError | Raised pyerror

text \<open>
  Lines 58 to 139.
  \<^verbatim>\<open>
  unprocessed_txs = list(transactions_coll.find(query))
  if not unprocessed_txs:
      return {"message": "No unprocessed transactions found for this date",
              "date": date_str}
  ...
  try:
      response = openai_client.chat.completions.create(...)
  except Exception as e:
      return {"error": f"OpenAI API call failed: {e}"}
  completion_text = response.choices[0].message.content.strip()
  completion_text = clean_completion_text(completion_text)
  try:
      llm_json = json.loads(completion_text)
  except json.JSONDecodeError:
      return {"error": "Failed to parse LLM response as JSON.",
              "raw_response": completion_text}
  return llm_json
  \<close>
  \<open>create req = Inl e\<close> is a call that raises an exception of class \<^verbatim>\<open>Exception\<close>, the
  class the \<^verbatim>\<open>except\<close> clause names and a client library raises, with \<open>e\<close> the text
  \<^verbatim>\<open>str(e)\<close>. The last nine lines, from \<^verbatim>\<open>response.choices[0]\<close> on, are \<open>decode_reply\<close>.
  Its \<^verbatim>\<open>except\<close> clause names \<^verbatim>\<open>json.JSONDecodeError\<close> alone, so any other exception of
  \<^verbatim>\<open>json.loads\<close> leaves the function.
\<close>

definition decode_reply ::
  "(string \<Rightarrow> loads_result) \<Rightarrow> event list \<Rightarrow> response \<Rightarrow> event list \<times> (pyerror + json)" where
  "decode_reply loads trace response =
     (case choices response of
        [] \<Rightarrow> (trace, Inl IndexError)
      | first # _ \<Rightarrow>
          (case content (message first) of
             None \<Rightarrow> (trace, Inl AttributeError)
           | Some reply \<Rightarrow>
               (case clean_completion_text (strip reply) of
                  Inl e \<Rightarrow> (trace, Inl e)
                | Inr completion_text \<Rightarrow>
                    (case loads completion_text of
                       JSONDecodeError \<Rightarrow>
                         (trace @ [Loads completion_text],
                          Inr (JObj [(''error'', JStr ''Failed to parse LLM response as JSON.''),
                                     (''raw_response'', JStr completion_text)]))
                     | Raised e \<Rightarrow>
                         (trace @ [Loads completion_text], Inl e)
                     | Decoded llm_json \<Rightarrow>
                         (trace @ [Loads completion_text], Inr llm_json)))))"

definition get_recommended_transaction_by_date ::
  "document list \<Rightarrow> (request \<Rightarrow> string + response) \<Rightarrow> (string \<Rightarrow> loads_result) \<Rightarrow> string
     \<Rightarrow> event list \<times> (pyerror + json)" where
  "get_recommended_transaction_by_date transactions_coll create loads date_str =
     (case recommendation_query date_str of
        Inl e \<Rightarrow> ([], Inl e)
      | Inr query \<Rightarrow>
          (let unprocessed_txs = coll_find transactions_coll query
           in if unprocessed_txs = []
              then ([Find query],
                    Inr (JObj [(''message'',
                                JStr ''No unprocessed transactions found for this date''),
                               (''date'', JStr date_str)]))
              else (case tx_descriptions unprocessed_txs of
                      Inl e \<Rightarrow> ([Find query], Inl e)
                    | Inr tx_descs \<Rightarrow>
                        (let req = chat_request tx_descs
                         in case create req of
                              Inl e \<Rightarrow>
                                ([Find query, Create req],
                                 Inr (JObj [(''error'',
                                             JStr (''OpenAI API call failed: '' @ e))]))
                            | Inr response \<Rightarrow>
                                decode_reply loads [Find query, Create req] response))))"

section \<open>Notation for the day window, and example data\<close>

text \<open>The two bounds built from a parsed date, as lines 18, 19, 63 and 64 build them.\<close>

abbreviation start_of :: "datetime \<Rightarrow> datetime" where
  "start_of t \<equiv> \<lparr>year = year t, month = month t, day = day t, hour = 0, minute = 0,
                 second = 0, microsecond = 0\<rparr>"

abbreviation end_of :: "datetime \<Rightarrow> datetime" where
  "end_of t \<equiv> \<lparr>year = year t, month = month t, day = day t, hour = 23, minute = 59,
               second = 59, microsecond = 0\<rparr>"

text \<open>
  The transaction of the specification's end-to-end example, dated 1 March 2024, once
  unprocessed and once processed, and the filter of that day.
\<close>

definition march_1 :: datetime where
  "march_1 = \<lparr>year = 2024, month = 3, day = 1, hour = 0, minute = 0, second = 0,
              microsecond = 0\<rparr>"

definition example_tx :: document where
  "example_tx =
     [(''_id'', PObjectId ''65e1f0a2c3b4d5e6f7a8b9c0''),
      (''transaction_id'', PStr ''T1''),
      (''transaction_type'', PStr ''debit''),
      (''balance_after_transaction'', PInt 500),
      (''amount'', PInt 20),
      (''merchant_category'', PStr ''travel''),
      (''description'', PStr ''Flight''),
      (''transaction_date'',
         PDatetime \<lparr>year = 2024, month = 3, day = 1, hour = 10, minute = 30, second = 0,
                    microsecond = 0\<rparr>),
      (''is_processed_for_recommendation'', PBool False)]"

definition processed_tx :: document where
  "processed_tx = setitem example_tx ''is_processed_for_recommendation'' (PBool True)"

definition example_query :: query where
  "example_query =
     \<lparr>transaction_date_gte = start_of march_1, transaction_date_lte = end_of march_1,
      is_processed_for_recommendation = Some False\<rparr>"

definition example_description :: string where
  "example_description =
     ''TransactionID: T1, Type: debit, Balance After Transaction: 500Amount: 20, Category: travel, Desc: Flight''"

definition example_request :: request where
  "example_request = chat_request [example_description]"

text \<open>A stand-in for \<^verbatim>\<open>json.loads\<close> that decodes the empty array and nothing else.\<close>

definition loads_empty_array :: "string \<Rightarrow> loads_result" where
  "loads_empty_array s = (if s = ''[]'' then Decoded (JArr []) else JSONDecodeError)"

text \<open>A reply wrapped in a fenced block, as a model typically sends it.\<close>

definition fenced_reply :: string where
  "fenced_reply = ''```json'' @ [CHR 0x0A] @ ''[]'' @ [CHR 0x0A] @ ''```''"

text \<open>
  The text \<^verbatim>\<open>MM/DD/YYYY\<close> of a day, in the words of the specification: two digits, a
  slash, two digits, a slash, four digits.
\<close>

definition two_digits :: "nat \<Rightarrow> string" where
  "two_digits n = [''0123456789'' ! (n div 10), ''0123456789'' ! (n mod 10)]"

definition mdY :: "nat \<Rightarrow> nat \<Rightarrow> nat \<Rightarrow> string" where
  "mdY y m d = two_digits m @ ''/'' @ two_digits d @ ''/''
               @ two_digits (y div 100) @ two_digits (y mod 100)"

section \<open>The decoder on texts without strings, arrays, objects or floats\<close>

text \<open>
  \<^verbatim>\<open>json.loads(s)\<close> skips the white space \<^verbatim>\<open>[ \t\n\r]*\<close>, scans one value, skips white
  space again and raises JSONDecodeError when text is left. The scanner looks at the
  first character: a double quote, a brace or a bracket starts a string, an object or
  an array; then come \<^verbatim>\<open>null\<close>, \<^verbatim>\<open>true\<close>, \<^verbatim>\<open>false\<close>, a number matching
  \<^verbatim>\<open>(-?(?:0|[1-9][0-9]*))(\.[0-9]+)?([eE][-+]?[0-9]+)?\<close>, and the constants \<^verbatim>\<open>NaN\<close>,
  \<^verbatim>\<open>Infinity\<close> and \<^verbatim>\<open>-Infinity\<close>; anything else is JSONDecodeError. A number with a
  fraction or an exponent goes to \<^verbatim>\<open>float\<close>, any other to \<^verbatim>\<open>int\<close>, which raises
  ValueError on more than 4300 digits.

  Strings, arrays, objects and floats are not modelled: on a text that starts one, the
  result is that of the parameter \<open>other\<close>.
\<close>

definition json_ws :: "char \<Rightarrow> bool" where
  "json_ws c = (c \<in> set [CHR 0x20, CHR 0x09, CHR 0x0A, CHR 0x0D])"

definition ascii_digit :: "char \<Rightarrow> bool" where
  "ascii_digit c = (c \<in> set ''0123456789'')"

definition match_integer :: "string \<Rightarrow> (string \<times> string) option" where
  "match_integer t =
     (let sign = (if t \<noteq> [] \<and> hd t = CHR ''-'' then ''-'' else []);
          u = drop (length sign) t
      in case u of
           [] \<Rightarrow> None
         | c # r \<Rightarrow>
             if c = CHR ''0'' then Some (sign @ ''0'', r)
             else if c \<in> set ''123456789''
             then Some (sign @ c # takeWhile ascii_digit r, dropWhile ascii_digit r)
             else None)"

definition has_frac :: "string \<Rightarrow> bool" where
  "has_frac rest = (case rest of c1 # c2 # _ \<Rightarrow> c1 = CHR ''.'' \<and> ascii_digit c2 | _ \<Rightarrow> False)"

definition has_exp :: "string \<Rightarrow> bool" where
  "has_exp rest =
     (case rest of
        c1 # c2 # r \<Rightarrow>
          c1 \<in> set ''eE''
          \<and> (if c2 \<in> set ''-+'' then r \<noteq> [] \<and> ascii_digit (hd r) else ascii_digit c2)
      | _ \<Rightarrow> False)"

definition int_max_str_digits :: nat where
  "int_max_str_digits = 4300"

definition parse_int :: "string \<Rightarrow> pyerror + int" where
  "parse_int integer =
     (let negative = (integer \<noteq> [] \<and> hd integer = CHR ''-'');
          digits = (if negative then tl integer else integer);
          n = int (foldl (\<lambda>n c. 10 * n + digit_val c) 0 digits)
      in if length digits > int_max_str_digits then Inl ValueError
         else Inr (if negative then - n else n))"

definition finish :: "json \<Rightarrow> string \<Rightarrow> loads_result" where
  "finish v rest = (if dropWhile json_ws rest = [] then Decoded v else JSONDecodeError)"

definition json_loads :: "(string \<Rightarrow> loads_result) \<Rightarrow> string \<Rightarrow> loads_result" where
  "json_loads other s =
     (let t = dropWhile json_ws s
      in case t of
           [] \<Rightarrow> JSONDecodeError
         | nextchar # _ \<Rightarrow>
             if nextchar \<in> set [CHR 0x22, CHR ''{'', CHR ''[''] then other s
             else if startswith t ''null'' then finish JNull (drop 4 t)
             else if startswith t ''true'' then finish (JBool True) (drop 4 t)
             else if startswith t ''false'' then finish (JBool False) (drop 5 t)
             else (case match_integer t of
                     Some (integer, rest) \<Rightarrow>
                       if has_frac rest \<or> has_exp rest then other s
                       else (case parse_int integer of
                               Inl e \<Rightarrow> Raised e
                             | Inr n \<Rightarrow> finish (JInt n) rest)
                   | None \<Rightarrow>
                       if startswith t ''NaN'' then finish JNaN (drop 3 t)
                       else if startswith t ''Infinity'' then finish JPosInf (drop 8 t)
                       else if startswith t ''-Infinity'' then finish JNegInf (drop 9 t)
                       else JSONDecodeError))"

section \<open>Two readings of the date pattern\<close>

text \<open>
  The pattern \<^verbatim>\<open>MM/DD/YYYY\<close> in the words of the specification: ten characters, slashes
  at the third and sixth place, digits elsewhere; \<open>mdY\<close> renders a day in it.
\<close>

definition matches_MM_DD_YYYY :: "string \<Rightarrow> bool" where
  "matches_MM_DD_YYYY s =
     (length s = 10 \<and> s ! 2 = CHR ''/'' \<and> s ! 5 = CHR ''/''
      \<and> list_all (\<lambda>i. s ! i \<in> set ''0123456789'') [0, 1, 3, 4, 6, 7, 8, 9])"

text \<open>
  The shape every text the parser accepts has: a month of one or two characters, a
  slash, a day of one or two characters, a slash, four digits.
\<close>

definition loose_mdY :: "string \<Rightarrow> bool" where
  "loose_mdY s =
     (let m = takeWhile (\<lambda>c. c \<noteq> CHR ''/'') s;
          r = drop (length m + 1) s;
          d = takeWhile (\<lambda>c. c \<noteq> CHR ''/'') r;
          Y = drop (length d + 1) r
      in s = m @ ''/'' @ d @ ''/'' @ Y
         \<and> (length m = 1 \<or> length m = 2) \<and> (length d = 1 \<or> length d = 2)
         \<and> length Y = 4 \<and> set Y \<subseteq> set ''0123456789'')"

section \<open>Properties of the string methods\<close>

lemma rstrip_split: "s = rstrip s @ rev (takeWhile isspace (rev s))"
proof -
  have "rev (dropWhile isspace xs) @ rev (takeWhile isspace xs) = rev xs" for xs
    by (simp flip: rev_append)
  from this [of "rev s"] show ?thesis by (simp add: rstrip_def)
qed

lemma rstrip_fixed: "s \<noteq> [] \<Longrightarrow> \<not> isspace (last s) \<Longrightarrow> rstrip s = s"
  by (cases s rule: rev_cases) (simp_all add: rstrip_def)

lemma lstrip_fixed: "s \<noteq> [] \<Longrightarrow> \<not> isspace (hd s) \<Longrightarrow> lstrip s = s"
  by (cases s) (simp_all add: lstrip_def)

lemma strip_Nil: "strip [] = []"
  by (simp add: strip_def lstrip_def rstrip_def)

lemma strip_fixed:
  assumes "s = [] \<or> (\<not> isspace (hd s) \<and> \<not> isspace (last s))"
  shows "strip s = s"
proof (cases "s = []")
  case True
  then show ?thesis by (simp add: strip_Nil)
next
  case False
  with assms show ?thesis by (simp add: strip_def lstrip_fixed rstrip_fixed)
qed

lemma rstrip_last: "rstrip s \<noteq> [] \<Longrightarrow> \<not> isspace (last (rstrip s))"
  by (simp add: rstrip_def last_rev hd_dropWhile)

lemma rstrip_hd: "rstrip s \<noteq> [] \<Longrightarrow> hd (rstrip s) = hd s"
  using rstrip_split [of s] by (metis hd_append2)

lemma lstrip_hd: "lstrip s \<noteq> [] \<Longrightarrow> \<not> isspace (hd (lstrip s))"
  by (simp add: lstrip_def hd_dropWhile)

lemma rstrip_Nil: "rstrip [] = []"
  by (simp add: rstrip_def)

lemma strip_ends:
  "strip s = [] \<or> (\<not> isspace (hd (strip s)) \<and> \<not> isspace (last (strip s)))"
proof (cases "strip s = []")
  case True
  then show ?thesis by simp
next
  case False
  then have ne: "rstrip (lstrip s) \<noteq> []" by (simp add: strip_def)
  then have "lstrip s \<noteq> []" by (auto simp: rstrip_Nil)
  then have "\<not> isspace (hd (lstrip s))" by (rule lstrip_hd)
  with ne have "\<not> isspace (hd (strip s))" by (simp add: strip_def rstrip_hd)
  moreover from ne have "\<not> isspace (last (strip s))" by (simp add: strip_def rstrip_last)
  ultimately show ?thesis by simp
qed

lemma strip_idem: "strip (strip s) = strip s"
  by (rule strip_fixed) (rule strip_ends)

lemma length_strip: "length (strip s) \<le> length s"
proof -
  have "length (rstrip (lstrip s)) \<le> length (lstrip s)"
    by (simp add: rstrip_def) (metis length_dropWhile_le length_rev)
  also have "\<dots> \<le> length s" by (simp add: lstrip_def length_dropWhile_le)
  finally show ?thesis by (simp add: strip_def)
qed

lemma startswith_fence_conv: "startswith s fence \<longleftrightarrow> (\<exists>r. s = ''```'' @ r)"
  unfolding startswith_def fence_def
  by (metis append_eq_conv_conj append_take_drop_id length_Cons list.size(3))

lemma length_join_butlast: "length (join sep (butlast ls)) \<le> length (join sep ls)"
  by (induction sep ls rule: join.induct) (auto split: if_splits)

lemma length_join_Cons:
  "length (join sep (x # xs)) \<le> length x + length sep + length (join sep xs)"
  by (cases xs) simp_all

lemma length_join_splitlines: "length (join [CHR 0x0A] (splitlines s)) \<le> length s"
proof (induction s rule: splitlines.induct)
  case 1
  then show ?case by simp
next
  case (2 c cs)
  define line where "line = takeWhile (\<lambda>x. \<not> islinebreak x) (c # cs)"
  define rest where "rest = dropWhile (\<lambda>x. \<not> islinebreak x) (c # cs)"
  have len: "length (c # cs) = length line + length rest"
    unfolding line_def rest_def by (metis length_append takeWhile_dropWhile_id)
  show ?case
  proof (cases rest)
    case Nil
    then have "splitlines (c # cs) = [line]"
      using line_def rest_def by (simp add: Let_def)
    with len show ?thesis by simp
  next
    case (Cons b after)
    show ?thesis
    proof (cases "b = CHR 0x0D \<and> after \<noteq> [] \<and> hd after = CHR 0x0A")
      case True
      then have eq: "splitlines (c # cs) = line # splitlines (tl after)"
        using Cons line_def rest_def by (simp add: Let_def del: takeWhile.simps dropWhile.simps)
      have "length (join [CHR 0x0A] (splitlines (tl after))) \<le> length (tl after)"
        using "2.IH"(1) [OF line_def rest_def Cons True] .
      with length_join_Cons [of "[CHR 0x0A]" line "splitlines (tl after)"] len Cons eq
      show ?thesis by simp
    next
      case False
      then have eq: "splitlines (c # cs) = line # splitlines after"
        using Cons line_def rest_def by (auto simp add: Let_def simp del: takeWhile.simps dropWhile.simps)
      have "length (join [CHR 0x0A] (splitlines after)) \<le> length after"
        using "2.IH"(2) [OF line_def rest_def Cons False] .
      with length_join_Cons [of "[CHR 0x0A]" line "splitlines after"] len Cons eq
      show ?thesis by simp
    qed
  qed
qed

lemma length_join_tl_splitlines:
  "s \<noteq> [] \<Longrightarrow> length (join [CHR 0x0A] (tl (splitlines s))) < length s"
proof (cases s)
  case Nil
  assume "s \<noteq> []"
  with Nil show ?thesis by simp
next
  case (Cons c cs)
  define line where "line = takeWhile (\<lambda>x. \<not> islinebreak x) (c # cs)"
  define rest where "rest = dropWhile (\<lambda>x. \<not> islinebreak x) (c # cs)"
  have len: "length (c # cs) = length line + length rest"
    unfolding line_def rest_def by (metis length_append takeWhile_dropWhile_id)
  show ?thesis
  proof (cases rest)
    case Nil
    then have "splitlines (c # cs) = [line]"
      using line_def rest_def by (simp add: Let_def)
    with Cons show ?thesis by simp
  next
    case (Cons b after)
    note rest = this
    show ?thesis
    proof (cases "b = CHR 0x0D \<and> after \<noteq> [] \<and> hd after = CHR 0x0A")
      case True
      then have eq: "splitlines (c # cs) = line # splitlines (tl after)"
        using rest line_def rest_def by (simp add: Let_def del: takeWhile.simps dropWhile.simps)
      with length_join_splitlines [of "tl after"] len rest \<open>s = c # cs\<close>
      show ?thesis by simp
    next
      case False
      then have eq: "splitlines (c # cs) = line # splitlines after"
        using rest line_def rest_def by (auto simp add: Let_def simp del: takeWhile.simps dropWhile.simps)
      with length_join_splitlines [of after] len rest \<open>s = c # cs\<close>
      show ?thesis by simp
    qed
  qed
qed

lemma splitlines_nonempty: "s \<noteq> [] \<Longrightarrow> splitlines s \<noteq> []"
  by (cases s) (simp_all add: Let_def split: list.splits)

lemma hd_splitlines:
  "s \<noteq> [] \<Longrightarrow> hd (splitlines s) = takeWhile (\<lambda>x. \<not> islinebreak x) s"
  by (cases s) (simp_all add: Let_def split: list.splits del: takeWhile.simps dropWhile.simps)


lemma startswith_fence_nonempty: "startswith s fence \<Longrightarrow> s \<noteq> []"
  by (auto simp: startswith_def fence_def)

lemma startswith_fence_hd_splitlines:
  assumes "startswith s fence"
  shows "startswith (hd (splitlines s)) fence"
proof -
  from assms obtain r where s: "s = ''```'' @ r"
    by (auto simp: startswith_fence_conv)
  have "takeWhile (\<lambda>x. \<not> islinebreak x) s = ''```'' @ takeWhile (\<lambda>x. \<not> islinebreak x) r"
    unfolding s by (simp add: islinebreak_def linebreaks_def)
  with hd_splitlines [of s] s show ?thesis
    by (simp add: startswith_def fence_def)
qed

lemma clean_completion_text_fenced:
  assumes "startswith (strip x) fence"
  shows "clean_completion_text x =
           (let lines1 = tl (splitlines (strip x));
                lines2 = (if lines1 \<noteq> [] \<and> startswith (last lines1) fence
                          then butlast lines1 else lines1)
            in Inr (strip (join [CHR 0x0A] lines2)))"
proof -
  from assms have "strip x \<noteq> []" by (rule startswith_fence_nonempty)
  then have "splitlines (strip x) \<noteq> []" by (rule splitlines_nonempty)
  then obtain first more where sp: "splitlines (strip x) = first # more"
    by (cases "splitlines (strip x)") auto
  from startswith_fence_hd_splitlines [OF assms] sp have "startswith first fence" by simp
  with assms sp show ?thesis by (simp add: clean_completion_text_def Let_def)
qed

lemma clean_completion_text_plain:
  "\<not> startswith (strip x) fence \<Longrightarrow> clean_completion_text x = Inr (strip x)"
  by (simp add: clean_completion_text_def Let_def)

lemma clean_completion_text_stripped:
  "\<exists>t. clean_completion_text x = Inr t \<and> strip t = t"
proof (cases "startswith (strip x) fence")
  case True
  then show ?thesis by (simp add: clean_completion_text_fenced Let_def strip_idem)
next
  case False
  then show ?thesis by (simp add: clean_completion_text_plain strip_idem)
qed

lemma clean_shrinks_fenced:
  assumes "startswith (strip x) fence" and "clean_completion_text x = Inr t"
  shows "length t < length (strip x)"
proof -
  define lines1 where "lines1 = tl (splitlines (strip x))"
  define lines2 where "lines2 = (if lines1 \<noteq> [] \<and> startswith (last lines1) fence
                          then butlast lines1 else lines1)"
  from assms have t: "t = strip (join [CHR 0x0A] lines2)"
    by (auto simp add: clean_completion_text_fenced Let_def lines1_def lines2_def)
  have "length t \<le> length (join [CHR 0x0A] lines2)"
    unfolding t by (rule length_strip)
  also have "\<dots> \<le> length (join [CHR 0x0A] lines1)"
    unfolding lines2_def by (simp add: length_join_butlast)
  also have "\<dots> < length (strip x)"
    unfolding lines1_def
    by (rule length_join_tl_splitlines) (rule startswith_fence_nonempty [OF assms(1)])
  finally show ?thesis .
qed

section \<open>The cleaner: totality, the unfenced case, idempotence\<close>

text \<open>
  C10. \<^verbatim>\<open>clean_completion_text\<close> is total: on every string, the empty string, the lone
  fence line and a one-line fenced input included, it returns a string and raises
  nothing (the \<^verbatim>\<open>lines[0]\<close> read is never out of range), and the string returned is
  its own \<^verbatim>\<open>strip()\<close>, so it has no white space at either end.
\<close>

theorem clean_completion_text_total:
  "(\<exists>t. clean_completion_text x = Inr t \<and> strip t = t)
   \<and> clean_completion_text [] = Inr []
   \<and> clean_completion_text ''```'' = Inr []
   \<and> clean_completion_text ''```json [1] ```'' = Inr []"
proof -
  have "clean_completion_text [] = Inr []" by code_simp
  moreover have "clean_completion_text ''```'' = Inr []" by code_simp
  moreover have "clean_completion_text ''```json [1] ```'' = Inr []" by code_simp
  ultimately show ?thesis using clean_completion_text_stripped [of x] by simp
qed

text \<open>
  C9. When the trimmed form of \<open>x\<close> does not begin with the triple-backtick fence,
  \<^verbatim>\<open>clean_completion_text(x)\<close> is the trimmed form of \<open>x\<close>.
\<close>

theorem clean_completion_text_unfenced:
  "\<not> startswith (strip x) fence \<Longrightarrow> clean_completion_text x = Inr (strip x)"
  by (rule clean_completion_text_plain)

theorem clean_completion_text_unfenced_witness:
  "\<not> startswith (strip ''  [1] `` '') fence
   \<and> clean_completion_text ''  [1] `` '' = Inr ''[1] ``''"
proof -
  have h: "\<not> startswith (strip ''  [1] `` '') fence" by code_simp
  have s: "strip ''  [1] `` '' = ''[1] ``''" by code_simp
  from clean_completion_text_unfenced [OF h] h s show ?thesis by simp
qed

text \<open>
  C2 as stated, \<^verbatim>\<open>clean(clean(x)) == clean(x)\<close> for every \<open>x\<close>, fails on a fenced block
  whose body is itself a fenced block: the first cleaning removes the outer pair of
  fence lines and leaves the inner block, which a second cleaning strips again.
\<close>

theorem clean_completion_text_not_idempotent:
  "clean_completion_text
     (''```'' @ [CHR 0x0A] @ ''```json'' @ [CHR 0x0A] @ ''[1]'' @ [CHR 0x0A] @ ''```''
        @ [CHR 0x0A] @ ''```'')
     = Inr (''```json'' @ [CHR 0x0A] @ ''[1]'' @ [CHR 0x0A] @ ''```'')
   \<and> clean_completion_text (''```json'' @ [CHR 0x0A] @ ''[1]'' @ [CHR 0x0A] @ ''```'')
     = Inr ''[1]''
   \<and> ''[1]'' \<noteq> ''```json'' @ [CHR 0x0A] @ ''[1]'' @ [CHR 0x0A] @ ''```''"
  by code_simp

text \<open>
  C2 as amended. Cleaning a cleaned text \<open>y\<close> returns \<open>y\<close> exactly when \<open>y\<close> does not
  begin with the fence. So the cleaner is idempotent on every input whose cleaned form
  has no leading fence, and on no other input.
\<close>

theorem clean_completion_text_idempotent_iff:
  assumes "clean_completion_text x = Inr y"
  shows "clean_completion_text y = Inr y \<longleftrightarrow> \<not> startswith y fence"
proof -
  from clean_completion_text_stripped [of x] assms have fixed: "strip y = y" by auto
  show ?thesis
  proof (cases "startswith y fence")
    case True
    have "clean_completion_text y \<noteq> Inr y"
    proof
      assume "clean_completion_text y = Inr y"
      with clean_shrinks_fenced [of y y] True fixed show False by simp
    qed
    with True show ?thesis by simp
  next
    case False
    with fixed show ?thesis by (simp add: clean_completion_text_plain)
  qed
qed

theorem clean_completion_text_idempotent_iff_witness:
  "clean_completion_text (''```json'' @ [CHR 0x0A] @ ''[1]'' @ [CHR 0x0A] @ ''```'') = Inr ''[1]''
   \<and> \<not> startswith ''[1]'' fence
   \<and> clean_completion_text ''[1]'' = Inr ''[1]''"
proof -
  have h: "clean_completion_text (''```json'' @ [CHR 0x0A] @ ''[1]'' @ [CHR 0x0A] @ ''```'')
             = Inr ''[1]''" by code_simp
  have n: "\<not> startswith ''[1]'' fence" by code_simp
  from clean_completion_text_idempotent_iff [OF h] n
  have "clean_completion_text ''[1]'' = Inr ''[1]''" by simp
  with h n show ?thesis by simp
qed

section \<open>Properties of the date parser\<close>

text \<open>The parser raises nothing but ValueError, and what it returns is a calendar day at midnight.\<close>

lemma strptime_error: "strptime s = Inl e \<Longrightarrow> e = ValueError"
  by (auto simp: strptime_def datetime_new_def split: list.splits prod.splits if_splits)

lemma strptime_fields:
  assumes "strptime s = Inr t"
  shows "1 \<le> year t \<and> year t \<le> 9999 \<and> 1 \<le> month t \<and> month t \<le> 12 \<and> 1 \<le> day t
         \<and> day t \<le> days_in_month (year t) (month t)
         \<and> hour t = 0 \<and> minute t = 0 \<and> second t = 0 \<and> microsecond t = 0"
  using assms
  by (auto simp: strptime_def datetime_new_def split: list.splits prod.splits if_splits)

text \<open>
  Every accepted text has the shape month, slash, day, slash, four-digit year, with a
  month and a day of one or two characters; so a text of any other shape is rejected.
\<close>

lemma two_chars_shape: "(x, r) \<in> set (two_chars a b s) \<Longrightarrow> s = x @ r \<and> length x = 2"
  by (cases s; cases "tl s") (auto simp: two_chars_def split: if_splits)

lemma one_char_shape: "(x, r) \<in> set (one_char a s) \<Longrightarrow> s = x @ r \<and> length x = 1"
  by (cases s) (auto simp: one_char_def split: if_splits)

lemma literal_shape: "r \<in> set (literal c s) \<Longrightarrow> s = c # r"
  by (cases s) (auto simp: literal_def split: if_splits)

lemma group_m_shape:
  "(x, r) \<in> set (group_m s) \<Longrightarrow> s = x @ r \<and> (length x = 1 \<or> length x = 2)"
  unfolding group_m_def by (auto dest: two_chars_shape one_char_shape)

lemma group_d_shape:
  "(x, r) \<in> set (group_d s) \<Longrightarrow> s = x @ r \<and> (length x = 1 \<or> length x = 2)"
  unfolding group_d_def by (auto dest: two_chars_shape one_char_shape)

lemma group_Y_shape:
  assumes "(x, r) \<in> set (group_Y s)"
  shows "s = x @ r \<and> length x = 4 \<and> set x \<subseteq> set ''0123456789''"
proof -
  define D where "D = set ''0123456789''"
  from assms have "(x, r) \<in> set (case s of
                      c1 # c2 # c3 # c4 # r \<Rightarrow>
                        if set [c1, c2, c3, c4] \<subseteq> D then [([c1, c2, c3, c4], r)] else []
                    | _ \<Rightarrow> [])"
    unfolding group_Y_def D_def .
  then have "s = x @ r \<and> length x = 4 \<and> set x \<subseteq> D"
    by (auto split: list.splits if_splits)
  then show ?thesis unfolding D_def .
qed

lemma format_regex_match_shape:
  assumes "((m, d, Y), rest) \<in> set (format_regex_match s)"
  shows "s = m @ ''/'' @ d @ ''/'' @ Y @ rest
         \<and> (length m = 1 \<or> length m = 2) \<and> (length d = 1 \<or> length d = 2)
         \<and> length Y = 4 \<and> set Y \<subseteq> set ''0123456789''"
proof -
  from assms obtain r1 r2 r3 r4 where
    m: "(m, r1) \<in> set (group_m s)" and s1: "r2 \<in> set (literal (CHR ''/'') r1)"
    and d: "(d, r3) \<in> set (group_d r2)" and s2: "r4 \<in> set (literal (CHR ''/'') r3)"
    and Y: "(Y, rest) \<in> set (group_Y r4)"
    unfolding format_regex_match_def by auto
  from group_m_shape [OF m] literal_shape [OF s1] group_d_shape [OF d] literal_shape [OF s2]
    group_Y_shape [OF Y]
  show ?thesis by simp
qed

lemma strptime_shape:
  assumes "strptime s = Inr t"
  shows "\<exists>m d Y. s = m @ ''/'' @ d @ ''/'' @ Y
           \<and> (length m = 1 \<or> length m = 2) \<and> (length d = 1 \<or> length d = 2)
           \<and> length Y = 4 \<and> set Y \<subseteq> set ''0123456789''
           \<and> month t = py_int m \<and> day t = py_int d \<and> year t = py_int Y"
proof -
  from assms obtain m d Y others where
    hd: "format_regex_match s = ((m, d, Y), []) # others"
    and t: "datetime_new (py_int Y) (py_int m) (py_int d) 0 0 0 = Inr t"
    by (auto simp: strptime_def split: list.splits prod.splits if_splits)
  from hd have "((m, d, Y), []) \<in> set (format_regex_match s)" by simp
  from format_regex_match_shape [OF this]
  have shape: "s = m @ ''/'' @ d @ ''/'' @ Y
               \<and> (length m = 1 \<or> length m = 2) \<and> (length d = 1 \<or> length d = 2)
               \<and> length Y = 4 \<and> set Y \<subseteq> set ''0123456789''"
    by simp
  from t have "month t = py_int m \<and> day t = py_int d \<and> year t = py_int Y"
    by (auto simp: datetime_new_def split: if_splits)
  with shape show ?thesis
    by (intro exI [of _ m] exI [of _ d] exI [of _ Y]) simp
qed

text \<open>The month and the day of an accepted text hold no slash, so the text is of the loose shape.\<close>

lemma two_chars_chars: "(x, r) \<in> set (two_chars a b s) \<Longrightarrow> set x \<subseteq> set a \<union> set b"
  by (cases s; cases "tl s") (auto simp: two_chars_def split: if_splits)

lemma one_char_chars: "(x, r) \<in> set (one_char a s) \<Longrightarrow> set x \<subseteq> set a"
  by (cases s) (auto simp: one_char_def split: if_splits)

lemma group_m_no_slash:
  assumes "(x, r) \<in> set (group_m s)"
  shows "CHR ''/'' \<notin> set x"
proof -
  from assms have "set x \<subseteq> set ''0123456789''"
    unfolding group_m_def by (auto dest!: two_chars_chars one_char_chars)
  then show ?thesis by auto
qed

lemma group_d_no_slash:
  assumes "(x, r) \<in> set (group_d s)"
  shows "CHR ''/'' \<notin> set x"
proof -
  from assms have "set x \<subseteq> set ''0123456789 ''"
    unfolding group_d_def by (auto dest!: two_chars_chars one_char_chars)
  then show ?thesis by auto
qed

lemma takeWhile_until: "x \<notin> set xs \<Longrightarrow> takeWhile (\<lambda>c. c \<noteq> x) (xs @ x # ys) = xs"
  by (induction xs) auto

lemma strptime_loose:
  assumes "strptime s = Inr t"
  shows "loose_mdY s"
proof -
  from assms obtain m d Y others where
    "format_regex_match s = ((m, d, Y), []) # others"
    by (auto simp: strptime_def split: list.splits prod.splits if_splits)
  then have "((m, d, Y), []) \<in> set (format_regex_match s)" by simp
  then obtain r1 r2 r3 r4 where
    m: "(m, r1) \<in> set (group_m s)" and s1: "r2 \<in> set (literal (CHR ''/'') r1)"
    and d: "(d, r3) \<in> set (group_d r2)" and s2: "r4 \<in> set (literal (CHR ''/'') r3)"
    and Y: "(Y, []) \<in> set (group_Y r4)"
    unfolding format_regex_match_def by auto
  from group_m_shape [OF m] literal_shape [OF s1] group_d_shape [OF d] literal_shape [OF s2]
    group_Y_shape [OF Y]
  have s: "s = m @ CHR ''/'' # d @ CHR ''/'' # Y"
    and lm: "length m = 1 \<or> length m = 2" and ld: "length d = 1 \<or> length d = 2"
    and lY: "length Y = 4" and dY: "set Y \<subseteq> set ''0123456789''"
    by simp_all
  have tm: "takeWhile (\<lambda>c. c \<noteq> CHR ''/'') s = m"
    unfolding s by (rule takeWhile_until) (rule group_m_no_slash [OF m])
  have rest: "drop (length m + 1) s = d @ CHR ''/'' # Y"
    unfolding s by simp
  have td: "takeWhile (\<lambda>c. c \<noteq> CHR ''/'') (d @ CHR ''/'' # Y) = d"
    by (rule takeWhile_until) (rule group_d_no_slash [OF d])
  have year: "drop (length d + 1) (d @ CHR ''/'' # Y) = Y"
    by simp
  show ?thesis
    unfolding loose_mdY_def Let_def tm rest td year
    using s lm ld lY dY by simp
qed

text \<open>Every calendar day written \<^verbatim>\<open>MM/DD/YYYY\<close> is accepted and parsed as that day.\<close>

lemma digits_upt: "[0..<10] = [0, 1, 2, 3, 4, 5, 6, 7, 8, 9::nat]"
  by code_simp

lemma below_ten: "n < 10 \<Longrightarrow> n \<in> {0, 1, 2, 3, 4, 5, 6, 7, 8, 9::nat}"
proof -
  assume "n < 10"
  then have "n \<in> set [0..<10]" by simp
  then show ?thesis unfolding digits_upt by simp
qed

lemma digit_char:
  assumes "n < 10"
  shows "''0123456789'' ! n \<in> set ''0123456789''
         \<and> digit_val (''0123456789'' ! n) = n
         \<and> \<not> isspace (''0123456789'' ! n)"
  using below_ten [OF assms]
  by (auto simp: digit_val_def isspace_def whitespace_def)

lemma py_int_two_digits:
  assumes "n < 100"
  shows "py_int (two_digits n) = n"
proof -
  from assms have a: "n div 10 < 10" and b: "n mod 10 < 10" by auto
  have "strip (two_digits n) = two_digits n"
    using digit_char [OF a] digit_char [OF b]
    by (intro strip_fixed) (simp add: two_digits_def)
  with digit_char [OF a] digit_char [OF b] show ?thesis
    by (simp add: py_int_def two_digits_def)
qed

lemma py_int_four_digits:
  assumes "y < 10000"
  shows "py_int (two_digits (y div 100) @ two_digits (y mod 100)) = y"
proof -
  let ?h = "y div 100" and ?l = "y mod 100"
  from assms have a: "?h div 10 < 10" and b: "?h mod 10 < 10"
    and c: "?l div 10 < 10" and d: "?l mod 10 < 10" by auto
  have "strip (two_digits ?h @ two_digits ?l) = two_digits ?h @ two_digits ?l"
    using digit_char [OF a] digit_char [OF d]
    by (intro strip_fixed) (simp add: two_digits_def)
  with digit_char [OF a] digit_char [OF b] digit_char [OF c] digit_char [OF d]
  have "py_int (two_digits ?h @ two_digits ?l)
          = 10 * (10 * (10 * (?h div 10) + ?h mod 10) + ?l div 10) + ?l mod 10"
    by (simp add: py_int_def two_digits_def)
  also have "\<dots> = y" by simp
  finally show ?thesis .
qed

lemma group_Y_four_digits:
  assumes "y < 10000"
  shows "group_Y (two_digits (y div 100) @ two_digits (y mod 100))
           = [(two_digits (y div 100) @ two_digits (y mod 100), [])]"
proof -
  let ?h = "y div 100" and ?l = "y mod 100"
  from assms have a: "?h div 10 < 10" and b: "?h mod 10 < 10"
    and c: "?l div 10 < 10" and d: "?l mod 10 < 10" by auto
  from digit_char [OF a] digit_char [OF b] digit_char [OF c] digit_char [OF d]
  show ?thesis by (simp add: group_Y_def two_digits_def)
qed

lemma months_upt: "[1..<13] = [1, 2, 3, 4, 5, 6, 7, 8, 9, 10, 11, 12::nat]"
  by code_simp

lemma days_upt:
  "[1..<32] = [1, 2, 3, 4, 5, 6, 7, 8, 9, 10, 11, 12, 13, 14, 15, 16, 17, 18, 19, 20, 21, 22,
              23, 24, 25, 26, 27, 28, 29, 30, 31::nat]"
  by code_simp

lemma group_m_then_slash:
  assumes "1 \<le> m" and "m \<le> 12"
  shows "concat (map (\<lambda>(mm, r1). concat (map (k mm) (literal (CHR ''/'') r1)))
                     (group_m (two_digits m @ CHR ''/'' # rest)))
           = k (two_digits m) rest"
proof -
  from assms have "m \<in> set [1..<13]" by simp
  then have "m = 1 \<or> m = 2 \<or> m = 3 \<or> m = 4 \<or> m = 5 \<or> m = 6 \<or> m = 7 \<or> m = 8 \<or> m = 9
             \<or> m = 10 \<or> m = 11 \<or> m = 12"
    unfolding months_upt by simp
  then show ?thesis
    by (elim disjE)
       (simp_all add: two_digits_def group_m_def two_chars_def one_char_def literal_def)
qed

lemma group_d_then_slash:
  assumes "1 \<le> d" and "d \<le> 31"
  shows "concat (map (\<lambda>(dd, r3). concat (map (k dd) (literal (CHR ''/'') r3)))
                     (group_d (two_digits d @ CHR ''/'' # rest)))
           = k (two_digits d) rest"
proof -
  from assms have "d \<in> set [1..<32]" by simp
  then have "d = 1 \<or> d = 2 \<or> d = 3 \<or> d = 4 \<or> d = 5 \<or> d = 6 \<or> d = 7 \<or> d = 8 \<or> d = 9
             \<or> d = 10 \<or> d = 11 \<or> d = 12 \<or> d = 13 \<or> d = 14 \<or> d = 15 \<or> d = 16
             \<or> d = 17 \<or> d = 18 \<or> d = 19 \<or> d = 20 \<or> d = 21 \<or> d = 22 \<or> d = 23
             \<or> d = 24 \<or> d = 25 \<or> d = 26 \<or> d = 27 \<or> d = 28 \<or> d = 29 \<or> d = 30
             \<or> d = 31"
    unfolding days_upt by simp
  then show ?thesis
    by (elim disjE)
       (simp_all add: two_digits_def group_d_def two_chars_def one_char_def literal_def)
qed

lemma days_in_month_le: "days_in_month y m \<le> 31"
  by (simp add: days_in_month_def)

lemma format_regex_match_mdY:
  assumes "y < 10000" and "1 \<le> m" and "m \<le> 12" and "1 \<le> d" and "d \<le> 31"
  shows "format_regex_match (mdY y m d)
           = [((two_digits m, two_digits d, two_digits (y div 100) @ two_digits (y mod 100)), [])]"
  unfolding format_regex_match_def mdY_def
  by (simp add: group_m_then_slash [OF assms(2,3)] group_d_then_slash [OF assms(4,5)]
        group_Y_four_digits [OF assms(1)])

lemma strptime_mdY:
  assumes "1 \<le> y" and "y \<le> 9999" and "1 \<le> m" and "m \<le> 12" and "1 \<le> d"
    and "d \<le> days_in_month y m"
  shows "strptime (mdY y m d)
           = Inr \<lparr>year = y, month = m, day = d, hour = 0, minute = 0, second = 0,
                  microsecond = 0\<rparr>"
proof -
  from assms(6) days_in_month_le [of y m] have d31: "d \<le> 31" by simp
  from assms(2) have y: "y < 10000" by simp
  from assms(4) have m: "m < 100" by simp
  from d31 have d: "d < 100" by simp
  show ?thesis
    using assms
    by (simp add: strptime_def format_regex_match_mdY [OF y assms(3,4,5) d31]
          py_int_two_digits [OF m] py_int_two_digits [OF d] py_int_four_digits [OF y]
          datetime_new_def)
qed

text \<open>The rendering \<open>mdY\<close> of a day is a text of the pattern \<^verbatim>\<open>MM/DD/YYYY\<close>.\<close>

lemma mdY_matches:
  assumes "y \<le> 9999" and "m < 100" and "d < 100"
  shows "matches_MM_DD_YYYY (mdY y m d)"
proof -
  let ?h = "y div 100" and ?l = "y mod 100"
  from assms have "m div 10 < 10" "m mod 10 < 10" "d div 10 < 10" "d mod 10 < 10"
    "?h div 10 < 10" "?h mod 10 < 10" "?l div 10 < 10" "?l mod 10 < 10"
    by auto
  from this [THEN digit_char] show ?thesis
    by (simp add: matches_MM_DD_YYYY_def mdY_def two_digits_def)
qed

text \<open>The filter each entry point builds from an accepted or a rejected text.\<close>

lemma fetch_query_Inr:
  assumes "strptime s = Inr t"
  shows "fetch_query s =
           Inr \<lparr>transaction_date_gte = start_of t, transaction_date_lte = end_of t,
                is_processed_for_recommendation = Some False\<rparr>"
  using strptime_fields [OF assms] assms
  by (simp add: fetch_query_def datetime_new_def)

lemma recommendation_query_Inr:
  assumes "strptime s = Inr t"
  shows "recommendation_query s =
           Inr \<lparr>transaction_date_gte = start_of t, transaction_date_lte = end_of t,
                is_processed_for_recommendation = Some False\<rparr>"
  using strptime_fields [OF assms] assms
  by (simp add: recommendation_query_def datetime_new_def)

lemma fetch_query_Inl: "strptime s = Inl e \<Longrightarrow> fetch_query s = Inl ValueError"
  by (frule strptime_error) (simp add: fetch_query_def)

lemma recommendation_query_Inl:
  "strptime s = Inl e \<Longrightarrow> recommendation_query s = Inl ValueError"
  by (frule strptime_error) (simp add: recommendation_query_def)

section \<open>The shape of a run\<close>

lemma decode_reply_trace:
  "fst (decode_reply loads tr resp) = tr \<or> (\<exists>t. fst (decode_reply loads tr resp) = tr @ [Loads t])"
  by (simp add: decode_reply_def split: list.splits option.splits sum.splits loads_result.splits)

lemma recommendation_trace:
  "recommendation_query s = Inr q \<Longrightarrow>
   \<exists>others. fst (get_recommended_transaction_by_date coll create loads s) = Find q # others"
  using decode_reply_trace [of loads "[Find q, Create (chat_request descs)]" for descs]
  by (auto simp: get_recommended_transaction_by_date_def Let_def split: sum.splits)

lemma run_cases:
  assumes run: "get_recommended_transaction_by_date coll create loads s = (trace, out)"
    and call: "Create req \<in> set trace"
  shows "\<exists>q. recommendation_query s = Inr q \<and>
           (case create req of
              Inl e \<Rightarrow> trace = [Find q, Create req]
                       \<and> out = Inr (JObj [(''error'', JStr (''OpenAI API call failed: '' @ e))])
            | Inr resp \<Rightarrow> decode_reply loads [Find q, Create req] resp = (trace, out))"
proof (cases "recommendation_query s")
  case (Inl e)
  with run call show ?thesis
    by (simp add: get_recommended_transaction_by_date_def)
next
  case (Inr q)
  note q = this
  show ?thesis
  proof (cases "coll_find coll q = []")
    case True
    with run call q show ?thesis
      by (auto simp: get_recommended_transaction_by_date_def)
  next
    case False
    note found = this
    show ?thesis
    proof (cases "tx_descriptions (coll_find coll q)")
      case (Inl e)
      with run call q found show ?thesis
        by (auto simp: get_recommended_transaction_by_date_def)
    next
      case (Inr descs)
      let ?r = "chat_request descs"
      have body: "(case create ?r of
                     Inl e \<Rightarrow> ([Find q, Create ?r],
                               Inr (JObj [(''error'', JStr (''OpenAI API call failed: '' @ e))]))
                   | Inr resp \<Rightarrow> decode_reply loads [Find q, Create ?r] resp) = (trace, out)"
        using run q found Inr by (simp add: get_recommended_transaction_by_date_def Let_def)
      have "req = ?r"
      proof (cases "create ?r")
        case (Inl e)
        with body call show ?thesis by auto
      next
        case (Inr resp)
        with body have "fst (decode_reply loads [Find q, Create ?r] resp) = trace" by simp
        with decode_reply_trace [of loads "[Find q, Create ?r]" resp] call
        show ?thesis by auto
      qed
      with body q show ?thesis by (auto split: sum.splits)
    qed
  qed
qed

text \<open>Documents: reading and writing a key, and what the \<^verbatim>\<open>_id\<close> key does not touch.\<close>

lemma getitem_setitem_same: "getitem (setitem tx k v) k = Inr v"
  by (simp add: getitem_def setitem_def update_conv')

lemma getitem_setitem_other: "k' \<noteq> k \<Longrightarrow> getitem (setitem tx k v) k' = getitem tx k'"
  by (simp add: getitem_def setitem_def update_conv')

lemma matches_setitem_id: "matches q (setitem tx ''_id'' v) = matches q tx"
  by (simp add: matches_def setitem_def update_conv' cong: option.case_cong)

lemma tx_description_setitem_id: "tx_description (setitem tx ''_id'' v) = tx_description tx"
  by (simp add: tx_description_def getitem_setitem_other)

lemma tx_descriptions_setitem_id:
  "tx_descriptions (map (\<lambda>tx. setitem tx ''_id'' (f tx)) txs) = tx_descriptions txs"
  by (induction txs) (simp_all add: tx_description_setitem_id)

lemma coll_find_setitem_id:
  "coll_find (map (\<lambda>tx. setitem tx ''_id'' (f tx)) coll) q =
     map (\<lambda>tx. setitem tx ''_id'' (f tx)) (coll_find coll q)"
  by (simp add: coll_find_def filter_map comp_def matches_setitem_id)

lemma recommendation_ignores_id:
  "get_recommended_transaction_by_date (map (\<lambda>tx. setitem tx ''_id'' (f tx)) coll) create loads s
     = get_recommended_transaction_by_date coll create loads s"
  by (cases "recommendation_query s")
     (simp_all add: get_recommended_transaction_by_date_def coll_find_setitem_id
        tx_descriptions_setitem_id)

lemma stringify_ids_rel:
  "stringify_ids txs = Inr txs' \<Longrightarrow>
   list_all2 (\<lambda>tx tx'. \<exists>v. getitem tx ''_id'' = Inr v \<and> tx' = setitem tx ''_id'' (PStr (py_str v)))
     txs txs'"
proof (induction txs arbitrary: txs')
  case Nil
  then show ?case by simp
next
  case (Cons tx txs)
  from Cons.prems obtain v rest where
    v: "getitem tx ''_id'' = Inr v" and rest: "stringify_ids txs = Inr rest"
    and eq: "txs' = setitem tx ''_id'' (PStr (py_str v)) # rest"
    by (auto split: sum.splits)
  from Cons.IH [OF rest] v eq show ?case by simp
qed

lemma stringify_ids_plain:
  assumes "stringify_ids txs = Inr txs'" and "tx' \<in> set txs'"
  shows "\<exists>s. getitem tx' ''_id'' = Inr (PStr s)"
proof -
  from stringify_ids_rel [OF assms(1)] assms(2) obtain tx v where
    "tx' = setitem tx ''_id'' (PStr (py_str v))"
    by (auto simp: list_all2_conv_all_nth in_set_conv_nth)
  then show ?thesis by (simp add: getitem_setitem_same)
qed

section \<open>Evaluation of the example\<close>

lemma example_strptime: "strptime ''03/01/2024'' = Inr march_1"
  by code_simp

lemma example_strptime_iso: "strptime ''2024-03-01'' = Inl ValueError"
  by code_simp

lemma example_recommendation_query: "recommendation_query ''03/01/2024'' = Inr example_query"
  by (simp add: recommendation_query_Inr [OF example_strptime] example_query_def march_1_def)

lemma example_fetch_query: "fetch_query ''03/01/2024'' = Inr example_query"
  by (simp add: fetch_query_Inr [OF example_strptime] example_query_def march_1_def)

lemma example_find: "coll_find [example_tx] example_query = [example_tx]"
  by code_simp

lemma example_find_processed: "coll_find [processed_tx] example_query = []"
  by code_simp

lemma example_descriptions:
  "tx_descriptions [example_tx] = Inr [example_description]"
  by code_simp

lemma example_run:
  "get_recommended_transaction_by_date [example_tx] create loads ''03/01/2024'' =
     (case create example_request of
        Inl e \<Rightarrow> ([Find example_query, Create example_request],
                  Inr (JObj [(''error'', JStr (''OpenAI API call failed: '' @ e))]))
      | Inr resp \<Rightarrow> decode_reply loads [Find example_query, Create example_request] resp)"
  unfolding example_request_def
  by (simp add: get_recommended_transaction_by_date_def example_recommendation_query
        example_find example_descriptions Let_def
      del: tx_descriptions.simps)

lemma example_fetch:
  "fetch_transactions_by_date [example_tx] ''03/01/2024'' =
     ([Find example_query], Inr [setitem example_tx ''_id'' (PStr ''65e1f0a2c3b4d5e6f7a8b9c0'')])"
  by code_simp

lemma clean_fenced_reply: "clean_completion_text (strip fenced_reply) = Inr ''[]''"
  by code_simp

lemma clean_prose_reply: "clean_completion_text (strip ''I pick T1.'') = Inr ''I pick T1.''"
  by code_simp

lemma clean_nan_reply: "clean_completion_text (strip ''NaN'') = Inr ''NaN''"
  by code_simp

lemma example_run_reply:
  assumes "clean_completion_text (strip reply) = Inr cleaned"
  shows "get_recommended_transaction_by_date [example_tx]
           (\<lambda>r. Inr (Response [Choice (Message (Some reply))])) loads ''03/01/2024'' =
         ([Find example_query, Create example_request, Loads cleaned],
          case loads cleaned of
            JSONDecodeError \<Rightarrow>
              Inr (JObj [(''error'', JStr ''Failed to parse LLM response as JSON.''),
                         (''raw_response'', JStr cleaned)])
          | Raised e \<Rightarrow> Inl e
          | Decoded v \<Rightarrow> Inr v)"
  using assms by (simp add: example_run decode_reply_def split: loads_result.splits)

text \<open>The decoder on the texts of the examples, and on a long run of the digit 1.\<close>

lemma loads_prose: "json_loads loads_empty_array ''I pick T1.'' = JSONDecodeError"
  by code_simp

lemma loads_array: "json_loads loads_empty_array ''[]'' = Decoded (JArr [])"
  by code_simp

lemma loads_nan: "json_loads loads_empty_array ''NaN'' = Decoded JNaN"
  by code_simp

lemma ones_stripped:
  assumes "0 < n"
  shows "strip (replicate n (CHR ''1'')) = replicate n (CHR ''1'')"
proof (rule strip_fixed)
  from assms have "hd (replicate n (CHR ''1'')) = CHR ''1''"
    and "last (replicate n (CHR ''1'')) = CHR ''1''"
    by simp_all
  then show "replicate n (CHR ''1'') = []
             \<or> (\<not> isspace (hd (replicate n (CHR ''1'')))
                 \<and> \<not> isspace (last (replicate n (CHR ''1''))))"
    by (simp add: isspace_def whitespace_def)
qed

lemma clean_ones:
  assumes "0 < n"
  shows "clean_completion_text (strip (replicate n (CHR ''1''))) = Inr (replicate n (CHR ''1''))"
proof -
  have "\<not> startswith (replicate n (CHR ''1'')) fence"
  proof
    assume "startswith (replicate n (CHR ''1'')) fence"
    then obtain r where "replicate n (CHR ''1'') = ''```'' @ r"
      by (auto simp: startswith_fence_conv)
    then have "hd (replicate n (CHR ''1'')) = CHR 0x60" by simp
    with assms show False by simp
  qed
  then show ?thesis
    using clean_completion_text_plain [of "replicate n (CHR ''1'')"]
    by (simp add: ones_stripped [OF assms])
qed

lemma loads_long_integer:
  assumes "int_max_str_digits < n"
  shows "json_loads other (replicate n (CHR ''1'')) = Raised ValueError"
proof -
  from assms obtain k where n: "n = Suc k" by (cases n) simp_all
  have digit: "ascii_digit (CHR ''1'')" by (simp add: ascii_digit_def)
  have int: "match_integer (CHR ''1'' # replicate k (CHR ''1''))
               = Some (CHR ''1'' # replicate k (CHR ''1''), [])"
    by (simp add: match_integer_def digit)
  have parse: "parse_int (CHR ''1'' # replicate k (CHR ''1'')) = Inl ValueError"
    using assms n by (simp add: parse_int_def Let_def)
  show ?thesis
    unfolding n
    by (simp add: json_loads_def json_ws_def startswith_def int parse has_frac_def has_exp_def)
qed

section \<open>The inspection entry point and the flag\<close>

text \<open>
  C1 says that for every date string \<^verbatim>\<open>fetch_transactions_by_date\<close> queries with the day
  window alone and returns every transaction of the day whatever its flag. The code
  adds \<^verbatim>\<open>"is_processed_for_recommendation": False\<close> to the filter, against its own
  docstring (\<^emph>\<open>Fetch ALL transactions for a given date (ignoring
  is_processed_for_recommendation)\<close>): with one processed transaction dated
  1 March 2024 in the store, the call for \<^verbatim>\<open>03/01/2024\<close> sends a filter that names the
  flag and returns the empty list.
\<close>

theorem fetch_transactions_by_date_drops_processed:
  "fetch_transactions_by_date [processed_tx] ''03/01/2024'' = ([Find example_query], Inr [])
   \<and> is_processed_for_recommendation example_query = Some False
   \<and> getitem processed_tx ''transaction_date''
       = Inr (PDatetime \<lparr>year = 2024, month = 3, day = 1, hour = 10, minute = 30, second = 0,
                         microsecond = 0\<rparr>)"
  by code_simp

section \<open>The day window\<close>

text \<open>
  C6. For every calendar day \<open>y\<close>, \<open>m\<close>, \<open>d\<close> written \<^verbatim>\<open>MM/DD/YYYY\<close>, both entry
  points build the same window, from 00:00:00 to 23:59:59 of that day with no
  conversion, and it is the window of the filter each of them sends to the repository.
  The two filters are equal as a whole, so nothing about the flag moves the bounds.
\<close>

theorem day_window_shared:
  assumes "1 \<le> y" and "y \<le> 9999" and "1 \<le> m" and "m \<le> 12" and "1 \<le> d"
    and "d \<le> days_in_month y m"
  shows "fetch_query (mdY y m d) =
           Inr \<lparr>transaction_date_gte =
                  \<lparr>year = y, month = m, day = d, hour = 0, minute = 0, second = 0,
                   microsecond = 0\<rparr>,
                transaction_date_lte =
                  \<lparr>year = y, month = m, day = d, hour = 23, minute = 59, second = 59,
                   microsecond = 0\<rparr>,
                is_processed_for_recommendation = Some False\<rparr>
         \<and> recommendation_query (mdY y m d) = fetch_query (mdY y m d)
         \<and> (\<exists>q. fetch_query (mdY y m d) = Inr q
                \<and> fst (fetch_transactions_by_date coll (mdY y m d)) = [Find q]
                \<and> (\<exists>others. fst (get_recommended_transaction_by_date coll create loads
                                     (mdY y m d)) = Find q # others))"
proof -
  note parsed = strptime_mdY [OF assms]
  from fetch_query_Inr [OF parsed] recommendation_query_Inr [OF parsed]
    recommendation_trace [OF recommendation_query_Inr [OF parsed], of coll create loads]
  show ?thesis
    by (simp add: fetch_transactions_by_date_def)
qed

theorem day_window_shared_witness:
  "mdY 2024 3 1 = ''03/01/2024''
   \<and> fetch_query ''03/01/2024'' = Inr example_query
   \<and> recommendation_query ''03/01/2024'' = Inr example_query
   \<and> transaction_date_gte example_query
       = \<lparr>year = 2024, month = 3, day = 1, hour = 0, minute = 0, second = 0, microsecond = 0\<rparr>
   \<and> transaction_date_lte example_query
       = \<lparr>year = 2024, month = 3, day = 1, hour = 23, minute = 59, second = 59,
          microsecond = 0\<rparr>
   \<and> fst (fetch_transactions_by_date [example_tx] ''03/01/2024'') = [Find example_query]"
proof -
  have lit: "mdY 2024 3 1 = ''03/01/2024''" by code_simp
  have last_day: "(1::nat) \<le> days_in_month 2024 3" by code_simp
  have "(1::nat) \<le> 2024" and "(2024::nat) \<le> 9999" and "(1::nat) \<le> 3" and "(3::nat) \<le> 12"
    and "(1::nat) \<le> 1" and "(1::nat) \<le> days_in_month 2024 3"
    using last_day by simp_all
  from day_window_shared [OF this, of "[example_tx]" "\<lambda>r. Inl ''timeout''" loads_empty_array]
  show ?thesis
    unfolding lit by (auto simp add: example_query_def march_1_def)
qed

section \<open>A rejected date\<close>

text \<open>
  C8 as stated, that every date string not matching the pattern \<^verbatim>\<open>MM/DD/YYYY\<close> makes
  both entry points raise, fails on \<^verbatim>\<open>3/1/2024\<close>: it is not of the pattern, the parser
  takes it for 1 March 2024, and both entry points run to their normal end.
\<close>

theorem one_digit_date_accepted:
  "\<not> matches_MM_DD_YYYY ''3/1/2024''
   \<and> strptime ''3/1/2024'' = Inr march_1
   \<and> fetch_transactions_by_date [example_tx] ''3/1/2024''
       = ([Find example_query],
          Inr [setitem example_tx ''_id'' (PStr ''65e1f0a2c3b4d5e6f7a8b9c0'')])
   \<and> get_recommended_transaction_by_date [processed_tx] (\<lambda>r. Inl ''timeout'')
        loads_empty_array ''3/1/2024''
       = ([Find example_query],
          Inr (JObj [(''message'', JStr ''No unprocessed transactions found for this date''),
                     (''date'', JStr ''3/1/2024'')]))"
proof -
  have parsed: "strptime ''3/1/2024'' = Inr march_1" by code_simp
  have q: "recommendation_query ''3/1/2024'' = Inr example_query"
    by (simp add: recommendation_query_Inr [OF parsed] example_query_def march_1_def)
  have "\<not> matches_MM_DD_YYYY ''3/1/2024''" by code_simp
  moreover have "fetch_transactions_by_date [example_tx] ''3/1/2024''
                   = ([Find example_query],
                      Inr [setitem example_tx ''_id'' (PStr ''65e1f0a2c3b4d5e6f7a8b9c0'')])"
    by code_simp
  ultimately show ?thesis
    using parsed q example_find_processed
    by (simp add: get_recommended_transaction_by_date_def)
qed

text \<open>
  C8 as amended. For every date string the parser rejects, both entry points raise the
  parser's ValueError before anything else happens: nothing is sent to the repository
  or to the provider, and no value is returned. The rejected strings include every
  string that is not a month of one or two characters, a slash, a day of one or two
  characters, a slash and four digits.
\<close>

theorem rejected_date_raises:
  assumes "strptime date_str = Inl e \<or> \<not> loose_mdY date_str"
  shows "fetch_transactions_by_date coll date_str = ([], Inl ValueError)
         \<and> get_recommended_transaction_by_date coll create loads date_str = ([], Inl ValueError)"
proof -
  from assms obtain e' where rejected: "strptime date_str = Inl e'"
    using strptime_loose [of date_str] by (cases "strptime date_str") auto
  from fetch_query_Inl [OF rejected] recommendation_query_Inl [OF rejected]
  show ?thesis
    by (simp add: fetch_transactions_by_date_def get_recommended_transaction_by_date_def)
qed

theorem rejected_date_raises_witness:
  "strptime ''2024-03-01'' = Inl ValueError
   \<and> \<not> loose_mdY ''2024-03-01''
   \<and> fetch_transactions_by_date [example_tx] ''2024-03-01'' = ([], Inl ValueError)
   \<and> get_recommended_transaction_by_date [example_tx] (\<lambda>r. Inl ''timeout'') loads_empty_array
        ''2024-03-01'' = ([], Inl ValueError)
   \<and> strptime ''02/30/2024'' = Inl ValueError
   \<and> loose_mdY ''02/30/2024''
   \<and> fetch_transactions_by_date [example_tx] ''02/30/2024'' = ([], Inl ValueError)
   \<and> get_recommended_transaction_by_date [example_tx] (\<lambda>r. Inl ''timeout'') loads_empty_array
        ''02/30/2024'' = ([], Inl ValueError)"
proof -
  have shape: "\<not> loose_mdY ''2024-03-01''" by code_simp
  have day: "strptime ''02/30/2024'' = Inl ValueError" by code_simp
  have loose: "loose_mdY ''02/30/2024''" by code_simp
  from shape have a: "strptime ''2024-03-01'' = Inl ValueError \<or> \<not> loose_mdY ''2024-03-01''"
    by simp
  from day have b: "strptime ''02/30/2024'' = Inl ValueError \<or> \<not> loose_mdY ''02/30/2024''"
    by simp
  from rejected_date_raises [OF a, of "[example_tx]" "\<lambda>r. Inl ''timeout''" loads_empty_array]
    rejected_date_raises [OF b, of "[example_tx]" "\<lambda>r. Inl ''timeout''" loads_empty_array]
    example_strptime_iso shape day loose
  show ?thesis by simp
qed

section \<open>No unprocessed transaction\<close>

text \<open>
  C3. When the selection query of the date returns the empty sequence, the run returns
  exactly the object with the message and the date string as given, and the only thing
  it has done is the repository query: the provider is not called.
\<close>

theorem no_unprocessed_transactions:
  assumes "recommendation_query date_str = Inr q" and "coll_find coll q = []"
  shows "get_recommended_transaction_by_date coll create loads date_str =
           ([Find q],
            Inr (JObj [(''message'', JStr ''No unprocessed transactions found for this date''),
                       (''date'', JStr date_str)]))"
  using assms by (simp add: get_recommended_transaction_by_date_def)

theorem no_unprocessed_transactions_witness:
  "recommendation_query ''03/01/2024'' = Inr example_query
   \<and> coll_find [processed_tx] example_query = []
   \<and> get_recommended_transaction_by_date [processed_tx] (\<lambda>r. Inl ''unreachable'')
        loads_empty_array ''03/01/2024'' =
       ([Find example_query],
        Inr (JObj [(''message'', JStr ''No unprocessed transactions found for this date''),
                   (''date'', JStr ''03/01/2024'')]))"
  using no_unprocessed_transactions [OF example_recommendation_query example_find_processed]
    example_recommendation_query example_find_processed
  by simp

section \<open>A provider call that raises\<close>

text \<open>
  C4. Of a run that reached the provider call: when the call raises, the run returns
  the object with the single key \<^verbatim>\<open>error\<close> holding the prefix and the text of the
  exception, hands nothing to the JSON parser and raises nothing. That is the only
  provider fault turned into a value: an answer without choices leaves as IndexError
  and an answer without content as AttributeError.
\<close>

theorem provider_failure_absorbed:
  assumes run: "get_recommended_transaction_by_date coll create loads date_str = (trace, out)"
    and call: "Create req \<in> set trace"
  shows "(\<forall>e. create req = Inl e \<longrightarrow>
            out = Inr (JObj [(''error'', JStr (''OpenAI API call failed: '' @ e))])
            \<and> (\<forall>t. Loads t \<notin> set trace))
         \<and> (\<forall>resp. create req = Inr resp \<and> choices resp = [] \<longrightarrow>
              out = Inl IndexError \<and> (\<forall>t. Loads t \<notin> set trace))
         \<and> (\<forall>resp first others. create req = Inr resp \<and> choices resp = first # others
              \<and> content (message first) = None \<longrightarrow>
              out = Inl AttributeError \<and> (\<forall>t. Loads t \<notin> set trace))"
proof -
  from run_cases [OF run call] obtain q where
    shape: "case create req of
              Inl e \<Rightarrow> trace = [Find q, Create req]
                       \<and> out = Inr (JObj [(''error'', JStr (''OpenAI API call failed: '' @ e))])
            | Inr resp \<Rightarrow> decode_reply loads [Find q, Create req] resp = (trace, out)"
    by blast
  then show ?thesis
    by (auto simp: decode_reply_def split: sum.splits)
qed

theorem provider_failure_absorbed_witness:
  "get_recommended_transaction_by_date [example_tx] (\<lambda>r. Inl ''timeout'') loads_empty_array
     ''03/01/2024''
     = ([Find example_query, Create example_request],
        Inr (JObj [(''error'', JStr ''OpenAI API call failed: timeout'')]))
   \<and> get_recommended_transaction_by_date [example_tx] (\<lambda>r. Inr (Response []))
       loads_empty_array ''03/01/2024''
     = ([Find example_query, Create example_request], Inl IndexError)
   \<and> get_recommended_transaction_by_date [example_tx]
       (\<lambda>r. Inr (Response [Choice (Message None)])) loads_empty_array ''03/01/2024''
     = ([Find example_query, Create example_request], Inl AttributeError)"
proof -
  let ?run = "\<lambda>create. get_recommended_transaction_by_date [example_tx] create
                         loads_empty_array ''03/01/2024''"
  let ?trace = "[Find example_query, Create example_request]"
  have a: "?run (\<lambda>r. Inl ''timeout'') = (?trace, snd (?run (\<lambda>r. Inl ''timeout'')))"
    by (simp add: example_run)
  have b: "?run (\<lambda>r. Inr (Response [])) = (?trace, snd (?run (\<lambda>r. Inr (Response []))))"
    by (simp add: example_run decode_reply_def)
  have c: "?run (\<lambda>r. Inr (Response [Choice (Message None)]))
             = (?trace, snd (?run (\<lambda>r. Inr (Response [Choice (Message None)]))))"
    by (simp add: example_run decode_reply_def)
  have m: "Create example_request \<in> set ?trace" by simp
  from provider_failure_absorbed [OF a m]
  have "snd (?run (\<lambda>r. Inl ''timeout''))
          = Inr (JObj [(''error'', JStr ''OpenAI API call failed: timeout'')])"
    by simp
  moreover from provider_failure_absorbed [OF b m]
  have "snd (?run (\<lambda>r. Inr (Response []))) = Inl IndexError"
    by simp
  moreover from provider_failure_absorbed [OF c m]
  have "snd (?run (\<lambda>r. Inr (Response [Choice (Message None)]))) = Inl AttributeError"
    by simp
  ultimately show ?thesis using a b c by simp
qed

section \<open>Decoding the reply\<close>

text \<open>
  C5 as stated, that a cleaned reply which is not valid JSON gives the error object and
  one which is valid JSON gives its decoded value, fails both ways. The reply \<^verbatim>\<open>NaN\<close> is
  not JSON, yet the decoder takes it and the run returns the float it stands for. A
  reply of 5000 digits is a JSON number, yet the decoder raises ValueError on it, the
  clause for JSONDecodeError does not catch that, and the run raises.
\<close>

theorem reply_outside_json_grammar:
  "get_recommended_transaction_by_date [example_tx]
     (\<lambda>r. Inr (Response [Choice (Message (Some ''NaN''))])) (json_loads loads_empty_array)
     ''03/01/2024''
     = ([Find example_query, Create example_request, Loads ''NaN''], Inr JNaN)
   \<and> get_recommended_transaction_by_date [example_tx]
       (\<lambda>r. Inr (Response [Choice (Message (Some (replicate 5000 (CHR ''1''))))]))
       (json_loads loads_empty_array) ''03/01/2024''
     = ([Find example_query, Create example_request, Loads (replicate 5000 (CHR ''1''))],
        Inl ValueError)"
proof -
  have long: "int_max_str_digits < 5000" by (simp add: int_max_str_digits_def)
  have some: "(0::nat) < 5000" by simp
  from example_run_reply [OF clean_nan_reply, of "json_loads loads_empty_array"]
    example_run_reply [OF clean_ones [OF some], of "json_loads loads_empty_array"]
  show ?thesis
    by (simp add: loads_nan loads_long_integer [OF long])
qed

text \<open>
  C5 as amended. Of a run whose provider call answered with a text: the text handed to
  \<^verbatim>\<open>json.loads\<close> is the cleaned reply; when \<^verbatim>\<open>json.loads\<close> raises JSONDecodeError the run
  returns exactly the object with \<^verbatim>\<open>error\<close> and, under \<^verbatim>\<open>raw_response\<close>, that same
  cleaned text; when it returns a value the run returns that value as it is, whatever
  its shape; when it raises anything else the run raises that.
\<close>

theorem decode_outcome:
  assumes run: "get_recommended_transaction_by_date coll create loads date_str = (trace, out)"
    and call: "Create req \<in> set trace"
    and answer: "create req = Inr resp"
    and first: "choices resp = first # others"
    and reply: "content (message first) = Some reply"
  shows "\<exists>cleaned. clean_completion_text (strip reply) = Inr cleaned
           \<and> last trace = Loads cleaned
           \<and> (loads cleaned = JSONDecodeError \<longrightarrow>
                out = Inr (JObj [(''error'', JStr ''Failed to parse LLM response as JSON.''),
                                 (''raw_response'', JStr cleaned)]))
           \<and> (\<forall>v. loads cleaned = Decoded v \<longrightarrow> out = Inr v)
           \<and> (\<forall>e. loads cleaned = Raised e \<longrightarrow> out = Inl e)"
proof -
  from clean_completion_text_stripped [of "strip reply"] obtain cleaned where
    cleaned: "clean_completion_text (strip reply) = Inr cleaned" by blast
  from run_cases [OF run call] answer obtain q where
    "decode_reply loads [Find q, Create req] resp = (trace, out)" by auto
  with first reply cleaned show ?thesis
    by (auto simp: decode_reply_def split: loads_result.splits)
qed

theorem decode_outcome_witness:
  "get_recommended_transaction_by_date [example_tx]
     (\<lambda>r. Inr (Response [Choice (Message (Some ''I pick T1.''))]))
     (json_loads loads_empty_array) ''03/01/2024''
     = ([Find example_query, Create example_request, Loads ''I pick T1.''],
        Inr (JObj [(''error'', JStr ''Failed to parse LLM response as JSON.''),
                   (''raw_response'', JStr ''I pick T1.'')]))
   \<and> get_recommended_transaction_by_date [example_tx]
       (\<lambda>r. Inr (Response [Choice (Message (Some fenced_reply))]))
       (json_loads loads_empty_array) ''03/01/2024''
     = ([Find example_query, Create example_request, Loads ''[]''], Inr (JArr []))
   \<and> get_recommended_transaction_by_date [example_tx]
       (\<lambda>r. Inr (Response [Choice (Message (Some (replicate 4301 (CHR ''1''))))]))
       (json_loads loads_empty_array) ''03/01/2024''
     = ([Find example_query, Create example_request, Loads (replicate 4301 (CHR ''1''))],
        Inl ValueError)"
proof -
  let ?loads = "json_loads loads_empty_array"
  let ?run = "\<lambda>create. get_recommended_transaction_by_date [example_tx] create ?loads
                         ''03/01/2024''"
  let ?answer = "\<lambda>reply (r::request). Inr (Response [Choice (Message (Some reply))])
                   :: string + response"
  let ?ones = "replicate 4301 (CHR ''1'')"
  have long: "int_max_str_digits < 4301" by (simp add: int_max_str_digits_def)
  have some: "(0::nat) < 4301" by simp
  have a: "?run (?answer ''I pick T1.'')
             = ([Find example_query, Create example_request, Loads ''I pick T1.''],
                snd (?run (?answer ''I pick T1.'')))"
    by (simp add: example_run_reply [OF clean_prose_reply])
  have b: "?run (?answer fenced_reply)
             = ([Find example_query, Create example_request, Loads ''[]''],
                snd (?run (?answer fenced_reply)))"
    by (simp add: example_run_reply [OF clean_fenced_reply])
  have c: "?run (?answer ?ones)
             = ([Find example_query, Create example_request, Loads ?ones],
                snd (?run (?answer ?ones)))"
    by (simp add: example_run_reply [OF clean_ones [OF some]])
  have "snd (?run (?answer ''I pick T1.''))
          = Inr (JObj [(''error'', JStr ''Failed to parse LLM response as JSON.''),
                       (''raw_response'', JStr ''I pick T1.'')])"
    using decode_outcome [OF a, of example_request _ "Choice (Message (Some ''I pick T1.''))" "[]"
                            "''I pick T1.''"]
    by (simp add: clean_prose_reply loads_prose)
  moreover have "snd (?run (?answer fenced_reply)) = Inr (JArr [])"
    using decode_outcome [OF b, of example_request _ "Choice (Message (Some fenced_reply))" "[]"
                            fenced_reply]
    by (simp add: clean_fenced_reply loads_array)
  moreover have "snd (?run (?answer ?ones)) = Inl ValueError"
    using decode_outcome [OF c, of example_request _ "Choice (Message (Some ?ones))" "[]" ?ones]
    by (simp add: clean_ones [OF some] loads_long_integer [OF long])
  ultimately show ?thesis using a b c by simp
qed

section \<open>Identifiers\<close>

text \<open>
  C7 as stated, that both entry points turn the \<^verbatim>\<open>_id\<close> of every retrieved record into
  a string before the record goes further, fails for
  \<^verbatim>\<open>get_recommended_transaction_by_date\<close>: the records it retrieves keep their ObjectId
  while the descriptions are built from them and the provider is called.
\<close>

theorem recommendation_keeps_native_id:
  "coll_find [example_tx] example_query = [example_tx]
   \<and> getitem example_tx ''_id'' = Inr (PObjectId ''65e1f0a2c3b4d5e6f7a8b9c0'')
   \<and> tx_descriptions [example_tx] = Inr [example_description]
   \<and> fst (get_recommended_transaction_by_date [example_tx] (\<lambda>r. Inl ''timeout'')
             loads_empty_array ''03/01/2024'')
       = [Find example_query, Create example_request]"
proof -
  have "getitem example_tx ''_id'' = Inr (PObjectId ''65e1f0a2c3b4d5e6f7a8b9c0'')"
    by code_simp
  then show ?thesis
    by (simp add: example_find example_descriptions example_run del: tx_descriptions.simps)
qed

text \<open>
  C7 as amended. \<^verbatim>\<open>fetch_transactions_by_date\<close> returns the retrieved records, in order,
  each with \<^verbatim>\<open>_id\<close> replaced by its \<^verbatim>\<open>str()\<close>, so every record it returns has a string
  identifier. \<^verbatim>\<open>get_recommended_transaction_by_date\<close> converts nothing and needs not:
  it returns no record, and what it does and returns is the same whatever the \<^verbatim>\<open>_id\<close>
  fields of the stored documents hold.
\<close>

theorem ids_stringified_where_returned:
  "(\<forall>q txs. fetch_query date_str = Inr q
        \<and> snd (fetch_transactions_by_date coll date_str) = Inr txs \<longrightarrow>
      list_all2 (\<lambda>tx tx'. \<exists>v. getitem tx ''_id'' = Inr v
                            \<and> tx' = setitem tx ''_id'' (PStr (py_str v)))
        (coll_find coll q) txs
      \<and> (\<forall>tx' \<in> set txs. \<exists>s. getitem tx' ''_id'' = Inr (PStr s)))
   \<and> get_recommended_transaction_by_date (map (\<lambda>tx. setitem tx ''_id'' (f tx)) coll)
        create loads date_str
       = get_recommended_transaction_by_date coll create loads date_str"
proof -
  have "list_all2 (\<lambda>tx tx'. \<exists>v. getitem tx ''_id'' = Inr v
                            \<and> tx' = setitem tx ''_id'' (PStr (py_str v)))
          (coll_find coll q) txs
        \<and> (\<forall>tx' \<in> set txs. \<exists>s. getitem tx' ''_id'' = Inr (PStr s))"
    if q: "fetch_query date_str = Inr q"
      and r: "snd (fetch_transactions_by_date coll date_str) = Inr txs" for q txs
  proof -
    from q r have "stringify_ids (coll_find coll q) = Inr txs"
      by (simp add: fetch_transactions_by_date_def)
    then show ?thesis
      using stringify_ids_rel stringify_ids_plain by blast
  qed
  then show ?thesis
    using recommendation_ignores_id [of f coll create loads date_str] by blast
qed

theorem ids_stringified_where_returned_witness:
  "fetch_query ''03/01/2024'' = Inr example_query
   \<and> snd (fetch_transactions_by_date [example_tx] ''03/01/2024'')
       = Inr [setitem example_tx ''_id'' (PStr ''65e1f0a2c3b4d5e6f7a8b9c0'')]
   \<and> getitem (setitem example_tx ''_id'' (PStr ''65e1f0a2c3b4d5e6f7a8b9c0'')) ''_id''
       = Inr (PStr ''65e1f0a2c3b4d5e6f7a8b9c0'')
   \<and> get_recommended_transaction_by_date
        (map (\<lambda>tx. setitem tx ''_id'' (PStr ''65e1f0a2c3b4d5e6f7a8b9c0'')) [example_tx])
        (\<lambda>r. Inl ''timeout'') loads_empty_array ''03/01/2024''
       = get_recommended_transaction_by_date [example_tx]
           (\<lambda>r. Inl ''timeout'') loads_empty_array ''03/01/2024''"
proof -
  have r: "snd (fetch_transactions_by_date [example_tx] ''03/01/2024'')
             = Inr [setitem example_tx ''_id'' (PStr ''65e1f0a2c3b4d5e6f7a8b9c0'')]"
    by (simp add: example_fetch)
  from ids_stringified_where_returned
         [of "''03/01/2024''" "[example_tx]"
             "\<lambda>tx. PStr ''65e1f0a2c3b4d5e6f7a8b9c0''" "\<lambda>r. Inl ''timeout''" loads_empty_array]
       example_fetch_query r
  show ?thesis by (simp add: getitem_setitem_same)
qed

end
